theory Spec2Isabelle
  imports Main "HOL-Library.Sublist" "HOL-Library.AList"
begin

section \<open>Python strings\<close>

text \<open>
  A Python \<open>str\<close> is a sequence of Unicode code points, and \<open>len\<close>, slicing, \<open>find\<close>
  and \<open>replace\<close> count code points. A string is therefore a list of code points
  (natural numbers); \<open>str ''abc''\<close> writes a literal.
\<close>

type_synonym codepoint = nat
type_synonym pystr = "codepoint list"

definition str :: "string \<Rightarrow> pystr" where
  "str s = map of_char s"

text \<open>\<open>sub in s\<close> on strings is \<^const>\<open>sublist\<close>; \<open>s.startswith(p)\<close> is \<^const>\<open>prefix\<close>.\<close>

text \<open>Index of the first occurrence of \<open>sub\<close> in \<open>s\<close>, if any.\<close>

fun find_idx :: "'a list \<Rightarrow> 'a list \<Rightarrow> nat option" where
  "find_idx sub [] = (if sub = [] then Some 0 else None)"
| "find_idx sub (c # cs) =
     (if prefix sub (c # cs) then Some 0 else map_option Suc (find_idx sub cs))"

text \<open>
  \<open>s.find(sub, start)\<close> for \<open>start \<ge> 0\<close>: the lowest index \<open>i \<ge> start\<close> with
  \<open>s[i:i+len(sub)] == sub\<close>, or \<open>-1\<close>; a start beyond the end gives \<open>-1\<close>.
\<close>

definition py_find :: "'a list \<Rightarrow> 'a list \<Rightarrow> nat \<Rightarrow> int" where
  "py_find s sub start =
     (if start > length s then - 1
      else case find_idx sub (drop start s) of
             None \<Rightarrow> - 1
           | Some i \<Rightarrow> int (start + i))"

text \<open>\<open>s[a:b]\<close> for \<open>0 \<le> a\<close>, \<open>0 \<le> b\<close>: out-of-range bounds are clamped.\<close>

definition slice :: "'a list \<Rightarrow> nat \<Rightarrow> nat \<Rightarrow> 'a list" where
  "slice s a b = take (b - a) (drop a s)"

text \<open>\<open>s[-2:]\<close>: the last two items, or all of \<open>s\<close> when it is shorter.\<close>

definition last2 :: "'a list \<Rightarrow> 'a list" where
  "last2 s = drop (length s - 2) s"

text \<open>
  \<open>s.replace(old, new)\<close>: the occurrences of \<open>old\<close> are found from the left and do not
  overlap. An empty \<open>old\<close> matches before every character and at the end.
\<close>

function py_replace :: "'a list \<Rightarrow> 'a list \<Rightarrow> 'a list \<Rightarrow> 'a list" where
  "py_replace old new s =
     (if old = [] then new @ concat (map (\<lambda>c. c # new) s)
      else if s = [] then []
      else if prefix old s then new @ py_replace old new (drop (length old) s)
      else hd s # py_replace old new (tl s))"
  by pat_completeness auto
termination
  by (relation "measure (\<lambda>(old, new, s). length s)") auto

declare py_replace.simps [simp del]

text \<open>\<open>s.split(sep)\<close> for a separator \<open>sep\<close> of one character, as the source calls it.\<close>

fun py_split1 :: "'a \<Rightarrow> 'a list \<Rightarrow> 'a list list" where
  "py_split1 sep [] = [[]]"
| "py_split1 sep (c # cs) =
     (if c = sep then [] # py_split1 sep cs
      else (c # hd (py_split1 sep cs)) # tl (py_split1 sep cs))"

text \<open>\<open>sep.join(parts)\<close>.\<close>

fun py_join :: "'a list \<Rightarrow> 'a list list \<Rightarrow> 'a list" where
  "py_join sep [] = []"
| "py_join sep [p] = p"
| "py_join sep (p # q # ps) = p @ sep @ py_join sep (q # ps)"

section \<open>Python values and exceptions\<close>

text \<open>
  The values that travel through the adapter are JSON-shaped Python values: \<open>None\<close>,
  booleans, integers, floats, strings, lists, and dictionaries with string keys. A
  dictionary is an association list in insertion order with distinct keys:
  \<open>d[k] = v\<close> is \<^const>\<open>AList.update\<close> (an existing key keeps its place, a new one
  goes last), \<open>d.pop(k)\<close> removes with \<^const>\<open>AList.delete\<close>. A float is kept as the
  numeral text it was read from (\<open>JFloat lexeme\<close> stands for \<open>float(lexeme)\<close>): floating
  point itself is outside this development.
\<close>

datatype json =
    JNull
  | JBool bool
  | JInt int
  | JFloat pystr
  | JStr pystr
  | JArr "json list"
  | JObj "(pystr \<times> json) list"

type_synonym pydict = "(pystr \<times> json) list"

text \<open>
  An exception is its class name and the text \<open>str(e)\<close>. Every exception here is an
  instance of \<open>Exception\<close>, which is what the \<open>except Exception\<close> clauses of the source
  catch.
\<close>

datatype exn = Exn (exn_class: string) (exn_str: pystr)

text \<open>\<open>str(KeyError(k))\<close> is \<open>repr(k)\<close>: for the plain keys of the source, \<open>k\<close> in single quotes.\<close>

definition KeyError :: "pystr \<Rightarrow> exn" where
  "KeyError k = Exn ''KeyError'' ([0x27] @ k @ [0x27])"

definition TypeError :: "string \<Rightarrow> exn" where
  "TypeError msg = Exn ''TypeError'' (str msg)"

definition AttributeError :: "string \<Rightarrow> exn" where
  "AttributeError msg = Exn ''AttributeError'' (str msg)"

definition IndexError :: exn where
  "IndexError = Exn ''IndexError'' (str ''list index out of range'')"

definition JSONDecodeError :: exn where
  "JSONDecodeError = Exn ''JSONDecodeError'' []"

text \<open>
  \<open>type(v).__name__\<close> in single quotes, as it appears in the messages of CPython (3.12)
  for an operation on a value of the wrong type.
\<close>

fun type_name :: "json \<Rightarrow> string" where
  "type_name JNull = ''NoneType''"
| "type_name (JBool _) = ''bool''"
| "type_name (JInt _) = ''int''"
| "type_name (JFloat _) = ''float''"
| "type_name (JStr _) = ''str''"
| "type_name (JArr _) = ''list''"
| "type_name (JObj _) = ''dict''"

definition quoted :: "string \<Rightarrow> string" where
  "quoted s = [CHR 0x27] @ s @ [CHR 0x27]"

text \<open>\<open>d[k]\<close> on a dictionary.\<close>

definition dict_get :: "pydict \<Rightarrow> pystr \<Rightarrow> exn + json" where
  "dict_get d k = (case map_of d k of None \<Rightarrow> Inl (KeyError k) | Some v \<Rightarrow> Inr v)"

text \<open>\<open>v[k]\<close> with a string key \<open>k\<close> on any value.\<close>

fun py_getitem :: "json \<Rightarrow> pystr \<Rightarrow> exn + json" where
  "py_getitem (JObj d) k = dict_get d k"
| "py_getitem (JArr _) k = Inl (TypeError ''list indices must be integers or slices, not str'')"
| "py_getitem (JStr _) k =
     Inl (TypeError (''string indices must be integers, not '' @ quoted ''str''))"
| "py_getitem v k = Inl (TypeError (quoted (type_name v) @ '' object is not subscriptable''))"

text \<open>\<open>v[k] = x\<close> with a string key \<open>k\<close> on any value; the result is the updated \<open>v\<close>.\<close>

fun py_setitem :: "json \<Rightarrow> pystr \<Rightarrow> json \<Rightarrow> exn + json" where
  "py_setitem (JObj d) k x = Inr (JObj (AList.update k x d))"
| "py_setitem (JArr _) k x = Inl (TypeError ''list indices must be integers or slices, not str'')"
| "py_setitem v k x =
     Inl (TypeError (quoted (type_name v) @ '' object does not support item assignment''))"

text \<open>\<open>xs[i]\<close> on a list: a negative index counts from the end.\<close>

definition list_index :: "'a list \<Rightarrow> int \<Rightarrow> exn + 'a" where
  "list_index xs i =
     (if - int (length xs) \<le> i \<and> i < 0 then Inr (xs ! nat (int (length xs) + i))
      else if 0 \<le> i \<and> i < int (length xs) then Inr (xs ! nat i)
      else Inl IndexError)"

text \<open>Decimal text of an integer, \<open>str(i)\<close>, and the value of a digit string, \<open>int(s)\<close>.\<close>

fun show_nat :: "nat \<Rightarrow> pystr" where
  "show_nat n = (if n < 10 then [48 + n] else show_nat (n div 10) @ [48 + n mod 10])"

declare show_nat.simps [simp del]

definition show_int :: "int \<Rightarrow> pystr" where
  "show_int i = (if i < 0 then 45 # show_nat (nat (- i)) else show_nat (nat i))"

definition is_digit :: "codepoint \<Rightarrow> bool" where
  "is_digit c \<longleftrightarrow> 48 \<le> c \<and> c \<le> 57"

definition nat_of_digits :: "pystr \<Rightarrow> nat" where
  "nat_of_digits ds = foldl (\<lambda>a d. 10 * a + (d - 48)) 0 ds"

section \<open>Regular expressions\<close>

text \<open>
  The two patterns of \<open>parse_json_format\<close> are sequences of items, each a single
  character class, taken once, or repeated greedily (\<open>*\<close>), or repeated lazily (\<open>*?\<close>).
  \<open>re_match\<close> is the backtracking matcher of Python's \<open>re\<close> on such a sequence: it gives
  the length of the match that starts at the head of the text, trying the longer
  repetition first for a greedy item and the shorter first for a lazy one.
\<close>

datatype ritem = One "codepoint \<Rightarrow> bool" | Greedy "codepoint \<Rightarrow> bool" | Lazy "codepoint \<Rightarrow> bool"

fun re_match :: "ritem list \<Rightarrow> pystr \<Rightarrow> nat option" where
  "re_match [] s = Some 0"
| "re_match (One p # r) [] = None"
| "re_match (One p # r) (c # cs) = (if p c then map_option Suc (re_match r cs) else None)"
| "re_match (Greedy p # r) [] = re_match r []"
| "re_match (Greedy p # r) (c # cs) =
     (if p c
      then (case re_match (Greedy p # r) cs of
              Some n \<Rightarrow> Some (Suc n)
            | None \<Rightarrow> re_match r (c # cs))
      else re_match r (c # cs))"
| "re_match (Lazy p # r) [] = re_match r []"
| "re_match (Lazy p # r) (c # cs) =
     (case re_match r (c # cs) of
        Some n \<Rightarrow> Some n
      | None \<Rightarrow> if p c then map_option Suc (re_match (Lazy p # r) cs) else None)"

text \<open>\<open>re.search(pattern, s)\<close>, then \<open>.group(0)\<close>: the match at the leftmost position that has one.\<close>

fun re_search :: "ritem list \<Rightarrow> pystr \<Rightarrow> pystr option" where
  "re_search pat [] = map_option (\<lambda>n. []) (re_match pat [])"
| "re_search pat (c # cs) =
     (case re_match pat (c # cs) of
        Some n \<Rightarrow> Some (take n (c # cs))
      | None \<Rightarrow> re_search pat cs)"

text \<open>
  \<open>\s\<close> in a \<open>str\<close> pattern: the Unicode whitespace characters. \<open>.\<close> without the
  \<open>DOTALL\<close> flag: any character but the newline.
\<close>

definition re_space :: "codepoint \<Rightarrow> bool" where
  "re_space c \<longleftrightarrow>
     (9 \<le> c \<and> c \<le> 13) \<or> (28 \<le> c \<and> c \<le> 32) \<or> c = 0x85 \<or> c = 0xA0 \<or> c = 0x1680 \<or>
     (0x2000 \<le> c \<and> c \<le> 0x200A) \<or> c = 0x2028 \<or> c = 0x2029 \<or> c = 0x202F \<or>
     c = 0x205F \<or> c = 0x3000"

definition re_dot :: "codepoint \<Rightarrow> bool" where
  "re_dot c \<longleftrightarrow> c \<noteq> 10"

definition lit :: "char \<Rightarrow> codepoint \<Rightarrow> bool" where
  "lit a c \<longleftrightarrow> c = of_char a"

text \<open>\<^verbatim>\<open>json_array_pattern = r"\[\s*\{.*?\}\s*\]"\<close>\<close>

definition json_array_pattern :: "ritem list" where
  "json_array_pattern =
     [One (lit CHR ''[''), Greedy re_space, One (lit CHR ''{''), Lazy re_dot,
      One (lit CHR ''}''), Greedy re_space, One (lit CHR '']'')]"

text \<open>\<^verbatim>\<open>json_object_pattern = r"\{\s*.*?\s*\}"\<close>\<close>

definition json_object_pattern :: "ritem list" where
  "json_object_pattern =
     [One (lit CHR ''{''), Greedy re_space, Lazy re_dot, Greedy re_space, One (lit CHR ''}'')]"

section \<open>JSON text\<close>

text \<open>
  \<open>json.dumps(v)\<close> with its defaults: separators \<open>", "\<close> and \<open>": "\<close>, and every character
  outside printable ASCII escaped (\<open>ensure_ascii\<close>). The text written for a float is a
  parameter, \<open>float_text lexeme\<close> for \<open>float(lexeme)\<close>.
\<close>

definition hex_digit :: "nat \<Rightarrow> codepoint" where
  "hex_digit d = (if d < 10 then 48 + d else 87 + d)"

definition hex4 :: "nat \<Rightarrow> pystr" where
  "hex4 n = [hex_digit (n div 4096 mod 16), hex_digit (n div 256 mod 16),
             hex_digit (n div 16 mod 16), hex_digit (n mod 16)]"

definition escape_char :: "codepoint \<Rightarrow> pystr" where
  "escape_char c =
     (if c = 0x22 then [0x5C, 0x22]
      else if c = 0x5C then [0x5C, 0x5C]
      else if c = 0x0A then [0x5C, 0x6E]
      else if c = 0x0D then [0x5C, 0x72]
      else if c = 0x09 then [0x5C, 0x74]
      else if c = 0x08 then [0x5C, 0x62]
      else if c = 0x0C then [0x5C, 0x66]
      else if 0x20 \<le> c \<and> c \<le> 0x7E then [c]
      else if c < 0x10000 then [0x5C, 0x75] @ hex4 c
      else [0x5C, 0x75] @ hex4 (0xD800 + (c - 0x10000) div 1024 mod 1024) @
           [0x5C, 0x75] @ hex4 (0xDC00 + (c - 0x10000) mod 1024))"

definition dumps_str :: "pystr \<Rightarrow> pystr" where
  "dumps_str s = [0x22] @ concat (map escape_char s) @ [0x22]"

fun dumps :: "(pystr \<Rightarrow> pystr) \<Rightarrow> json \<Rightarrow> pystr" where
  "dumps ft JNull = str ''null''"
| "dumps ft (JBool b) = (if b then str ''true'' else str ''false'')"
| "dumps ft (JInt i) = show_int i"
| "dumps ft (JFloat lexeme) = ft lexeme"
| "dumps ft (JStr s) = dumps_str s"
| "dumps ft (JArr vs) = str ''['' @ py_join (str '', '') (map (dumps ft) vs) @ str '']''"
| "dumps ft (JObj kvs) =
     str ''{'' @
     py_join (str '', '') (map (\<lambda>kv. dumps_str (fst kv) @ str '': '' @ dumps ft (snd kv)) kvs) @
     str ''}''"

text \<open>
  \<open>json.loads(s)\<close> as the decoder of CPython reads a \<open>str\<close>: the JSON grammar, plus the
  constants \<open>NaN\<close>, \<open>Infinity\<close> and \<open>-Infinity\<close>; whitespace is space, tab, newline and
  carriage return; a control character inside a string is an error. Each parser reads
  a prefix of the text and returns the value with the rest; \<open>None\<close> is
  \<open>JSONDecodeError\<close>. The decoder's limits on nesting depth and on the number of digits
  of an integer are not modelled.
\<close>

definition json_ws :: "codepoint \<Rightarrow> bool" where
  "json_ws c \<longleftrightarrow> c = 0x20 \<or> c = 0x09 \<or> c = 0x0A \<or> c = 0x0D"

definition skip_ws :: "pystr \<Rightarrow> pystr" where
  "skip_ws s = dropWhile json_ws s"

definition hex_val :: "codepoint \<Rightarrow> nat option" where
  "hex_val c =
     (if 48 \<le> c \<and> c \<le> 57 then Some (c - 48)
      else if 97 \<le> c \<and> c \<le> 102 then Some (c - 87)
      else if 65 \<le> c \<and> c \<le> 70 then Some (c - 55)
      else None)"

text \<open>The four hexadecimal digits after \<open>\u\<close>.\<close>

definition decode_hex4 :: "pystr \<Rightarrow> nat option" where
  "decode_hex4 s =
     (case map hex_val (take 4 s) of
        [Some a, Some b, Some c, Some d] \<Rightarrow> Some (((a * 16 + b) * 16 + c) * 16 + d)
      | _ \<Rightarrow> None)"

definition unescape :: "codepoint \<Rightarrow> codepoint option" where
  "unescape e =
     (if e = 0x22 \<or> e = 0x5C \<or> e = 0x2F then Some e
      else if e = 0x62 then Some 0x08
      else if e = 0x66 then Some 0x0C
      else if e = 0x6E then Some 0x0A
      else if e = 0x72 then Some 0x0D
      else if e = 0x74 then Some 0x09
      else None)"

text \<open>
  The body of a string, after its opening quote, up to and including the closing one.
  A high surrogate escape directly followed by a low surrogate escape is one character.
\<close>

fun scanstring :: "pystr \<Rightarrow> (pystr \<times> pystr) option" where
  "scanstring [] = None"
| "scanstring (c # cs) =
     (if c = 0x22 then Some ([], cs)
      else if c = 0x5C then
        (case cs of
           [] \<Rightarrow> None
         | e # r \<Rightarrow>
             if e = 0x75 then
               (case decode_hex4 r of
                  None \<Rightarrow> None
                | Some u \<Rightarrow>
                    if 0xD800 \<le> u \<and> u \<le> 0xDBFF \<and> prefix [0x5C, 0x75] (drop 4 r) then
                      (case decode_hex4 (drop 6 r) of
                         None \<Rightarrow> None
                       | Some u2 \<Rightarrow>
                           if 0xDC00 \<le> u2 \<and> u2 \<le> 0xDFFF
                           then map_option (apfst ((#) (0x10000 + (u - 0xD800) * 1024 + (u2 - 0xDC00))))
                                  (scanstring (drop 10 r))
                           else map_option (apfst ((#) u)) (scanstring (drop 4 r)))
                    else map_option (apfst ((#) u)) (scanstring (drop 4 r)))
             else
               (case unescape e of
                  None \<Rightarrow> None
                | Some x \<Rightarrow> map_option (apfst ((#) x)) (scanstring r)))
      else if c < 0x20 then None
      else map_option (apfst ((#) c)) (scanstring cs))"

text \<open>
  A number: \<open>-?(0|[1-9][0-9]*)\<close>, then optionally \<open>.[0-9]+\<close>, then optionally
  \<open>[eE][-+]?[0-9]+\<close>. With neither fraction nor exponent it is an integer.
\<close>

definition scan_int_part :: "pystr \<Rightarrow> (pystr \<times> pystr) option" where
  "scan_int_part s =
     (let sign = takeWhile (\<lambda>c. c = 0x2D) (take 1 s); t = drop (length sign) s
      in case t of
           [] \<Rightarrow> None
         | d # r \<Rightarrow>
             if d = 48 then Some (sign @ [d], r)
             else if is_digit d then Some (sign @ d # takeWhile is_digit r, dropWhile is_digit r)
             else None)"

definition scan_frac :: "pystr \<Rightarrow> pystr \<times> pystr" where
  "scan_frac s =
     (case s of
        c # d # r \<Rightarrow>
          if c = 0x2E \<and> is_digit d
          then (c # d # takeWhile is_digit r, dropWhile is_digit r)
          else ([], s)
      | _ \<Rightarrow> ([], s))"

definition scan_exp :: "pystr \<Rightarrow> pystr \<times> pystr" where
  "scan_exp s =
     (case s of
        [] \<Rightarrow> ([], s)
      | c # r \<Rightarrow>
          if c = 0x65 \<or> c = 0x45 then
            (let sign = takeWhile (\<lambda>x. x = 0x2D \<or> x = 0x2B) (take 1 r);
                 t = drop (length sign) r;
                 ds = takeWhile is_digit t
             in if ds = [] then ([], s) else (c # sign @ ds, dropWhile is_digit t))
          else ([], s))"

definition int_of_text :: "pystr \<Rightarrow> int" where
  "int_of_text s =
     (if prefix [0x2D] s then - int (nat_of_digits (drop 1 s)) else int (nat_of_digits s))"

definition scan_number :: "pystr \<Rightarrow> (json \<times> pystr) option" where
  "scan_number s =
     (case scan_int_part s of
        None \<Rightarrow> None
      | Some (integer, r) \<Rightarrow>
          (let (frac, r1) = scan_frac r; (ex, r2) = scan_exp r1
           in if frac = [] \<and> ex = [] then Some (JInt (int_of_text integer), r2)
              else Some (JFloat (integer @ frac @ ex), r2)))"

text \<open>The values that are neither strings, arrays nor objects.\<close>

definition scan_atom :: "pystr \<Rightarrow> (json \<times> pystr) option" where
  "scan_atom s =
     (if prefix (str ''null'') s then Some (JNull, drop 4 s)
      else if prefix (str ''true'') s then Some (JBool True, drop 4 s)
      else if prefix (str ''false'') s then Some (JBool False, drop 5 s)
      else case scan_number s of
             Some res \<Rightarrow> Some res
           | None \<Rightarrow>
               if prefix (str ''NaN'') s then Some (JFloat (str ''NaN''), drop 3 s)
               else if prefix (str ''Infinity'') s then Some (JFloat (str ''Infinity''), drop 8 s)
               else if prefix (str ''-Infinity'') s then Some (JFloat (str ''-Infinity''), drop 9 s)
               else None)"

text \<open>\<open>dict(pairs)\<close>: a repeated key keeps its first place and takes its last value.\<close>

definition dict_of_pairs :: "(pystr \<times> json) list \<Rightarrow> pydict" where
  "dict_of_pairs pairs = foldl (\<lambda>d kv. AList.update (fst kv) (snd kv) d) [] pairs"

lemma length_skip_ws: "length (skip_ws s) \<le> length s"
  by (simp add: skip_ws_def length_dropWhile_le)

text \<open>
  \<open>scan_once\<close> reads one value; \<open>scan_items\<close> reads the items of an array from the first
  item to the closing bracket; \<open>scan_pairs\<close> reads the members of an object from the
  quote of the first key to the closing brace.
\<close>

function scan_once :: "pystr \<Rightarrow> (json \<times> pystr) option"
  and scan_items :: "pystr \<Rightarrow> (json list \<times> pystr) option"
  and scan_pairs :: "pystr \<Rightarrow> ((pystr \<times> json) list \<times> pystr) option"
where
  "scan_once s =
     (case s of
        [] \<Rightarrow> None
      | c # r \<Rightarrow>
          if c = 0x22 then map_option (apfst JStr) (scanstring r)
          else if c = 0x7B then
            (if prefix [0x7D] (skip_ws r) then Some (JObj [], drop 1 (skip_ws r))
             else map_option (apfst (\<lambda>pairs. JObj (dict_of_pairs pairs))) (scan_pairs (skip_ws r)))
          else if c = 0x5B then
            (if prefix [0x5D] (skip_ws r) then Some (JArr [], drop 1 (skip_ws r))
             else map_option (apfst JArr) (scan_items (skip_ws r)))
          else scan_atom s)"
| "scan_items s =
     (case scan_once s of
        None \<Rightarrow> None
      | Some (v, r) \<Rightarrow>
          (case skip_ws r of
             [] \<Rightarrow> None
           | d # r' \<Rightarrow>
               if d = 0x5D then Some ([v], r')
               else if d = 0x2C \<and> length r' < length s
               then map_option (apfst ((#) v)) (scan_items (skip_ws r'))
               else None))"
| "scan_pairs s =
     (case s of
        [] \<Rightarrow> None
      | q # r0 \<Rightarrow>
          if q \<noteq> 0x22 then None
          else
            (case scanstring r0 of
               None \<Rightarrow> None
             | Some (key, r1) \<Rightarrow>
                 if \<not> prefix [0x3A] (skip_ws r1) \<or> \<not> length r1 \<le> length r0 then None
                 else
                   (case scan_once (skip_ws (drop 1 (skip_ws r1))) of
                      None \<Rightarrow> None
                    | Some (v, r2) \<Rightarrow>
                        (case skip_ws r2 of
                           [] \<Rightarrow> None
                         | d # r3 \<Rightarrow>
                             if d = 0x7D then Some ([(key, v)], r3)
                             else if d = 0x2C \<and> length r3 < length s
                             then map_option (apfst ((#) (key, v))) (scan_pairs (skip_ws r3))
                             else None))))"
  by pat_completeness auto
termination
proof (relation "measure (\<lambda>x. case x of
            Inl s \<Rightarrow> 2 * length s
          | Inr (Inl s) \<Rightarrow> 2 * length s + 1
          | Inr (Inr s) \<Rightarrow> 2 * length s + 1)", goal_cases)
  case 1
  show ?case by simp
next
  case (2 s c r)
  then show ?case using length_skip_ws[of r] by simp
next
  case (3 s c r)
  then show ?case using length_skip_ws[of r] by simp
next
  case (4 s)
  show ?case by simp
next
  case (5 s res v r d r')
  then show ?case using length_skip_ws[of r'] by simp
next
  case (6 s q r0 res key r1)
  then show ?case
    using length_skip_ws[of "drop 1 (skip_ws r1)"] length_skip_ws[of r1] by auto
next
  case (7 s q r0 res key r1 res' v r2 d r3)
  then show ?case using length_skip_ws[of r3] by simp
qed

declare scan_once.simps [simp del] scan_items.simps [simp del] scan_pairs.simps [simp del]

definition loads :: "pystr \<Rightarrow> exn + json" where
  "loads s =
     (case scan_once (skip_ws s) of
        None \<Rightarrow> Inl JSONDecodeError
      | Some (v, r) \<Rightarrow> if skip_ws r = [] then Inr v else Inl JSONDecodeError)"

subsection \<open>Values that are written and read back unchanged\<close>







section \<open>The adapter\<close>

subsection \<open>Collaborators and data\<close>

text \<open>
  What the adapter calls but does not define is a parameter. \<open>float_text\<close> is the text
  \<open>json.dumps\<close> writes for a float and \<open>py_repr\<close> is \<open>repr\<close> on a float, list or
  dictionary; \<open>generator_tool_call_id\<close> gives the identifier returned by the \<open>n\<close>-th call
  of the generator since the start of the process; \<open>completion\<close> is the remote call
  together with the reading of \<open>choices[0].message.content\<close> from its result, and
  \<open>local_backend\<close> the call of a local engine: each returns the text or raises.
\<close>

datatype backend =
    RemoteModel pystr
  | HfLocalBackend json json json
  | VLLMLocalBackend json json json
  | OllamaBackend json json

record 't env =
  float_text :: "pystr \<Rightarrow> pystr"
  py_repr :: "json \<Rightarrow> pystr"
  generator_tool_call_id :: "nat \<Rightarrow> pystr"
  completion :: "pystr \<Rightarrow> pydict list \<Rightarrow> 't \<Rightarrow> exn + pystr"
  local_backend :: "backend \<Rightarrow> pydict list \<Rightarrow> 't \<Rightarrow> exn + pystr"

record SimpleContextManager =
  check_restoration :: "int \<Rightarrow> exn + bool"
  gen_recover :: "int \<Rightarrow> exn + pystr"

text \<open>
  The fields of \<open>self\<close> that \<open>address_syscall\<close> reads. \<open>strategy\<close> is \<open>None\<close> when
  \<open>__init__\<close> did not set the attribute; otherwise it is its method \<open>get_model_idxs\<close>.
\<close>

record LLMAdapter =
  llm_configs :: "pydict list"
  llms :: "backend list"
  context_manager :: "SimpleContextManager option"
  strategy :: "(pydict list \<Rightarrow> exn + int list) option"

text \<open>The request: \<open>llm_syscall.query\<close> and \<open>llm_syscall.get_pid()\<close>.\<close>

record LLMQuery =
  messages :: "pydict list"
  tools :: "json list option"
  message_return_type :: pystr
  query_llms :: "pydict list option"

record LLMSyscall =
  query :: LLMQuery
  pid :: int

text \<open>
  The response. A field that the source does not pass to the constructor is \<open>None\<close>
  here: it keeps the default of the class, which is declared outside this file.
\<close>

record LLMResponse =
  response_message :: "pystr option"
  tool_calls :: "json list option"
  error :: "pystr option"
  finished :: bool
  status_code :: "int option"

text \<open>Sequencing of steps that may raise: the first exception ends the computation.\<close>

definition seq :: "exn + 'a \<Rightarrow> ('a \<Rightarrow> exn + 'b) \<Rightarrow> exn + 'b" where
  "seq r f = (case r of Inl e \<Rightarrow> Inl e | Inr x \<Rightarrow> f x)"

subsection \<open>\<open>pre_process_tools\<close>\<close>

text \<open>\<^verbatim>\<open>"__".join(tool_name.split("/"))\<close>\<close>

definition encode_tool_name :: "pystr \<Rightarrow> pystr" where
  "encode_tool_name tool_name = py_join (str ''__'') (py_split1 (of_char CHR ''/'') tool_name)"

text \<open>\<^verbatim>\<open>"/" in v\<close> on any value.\<close>

fun contains_slash :: "json \<Rightarrow> exn + bool" where
  "contains_slash (JStr s) = Inr (sublist (str ''/'') s)"
| "contains_slash (JArr vs) = Inr (JStr (str ''/'') \<in> set vs)"
| "contains_slash (JObj d) = Inr (str ''/'' \<in> fst ` set d)"
| "contains_slash v =
     Inl (TypeError (''argument of type '' @ quoted (type_name v) @ '' is not iterable''))"

text \<open>
  The body of the loop, for one tool. A list or dictionary that has \<open>"/"\<close> as an item or
  key has no method \<open>split\<close>.
\<close>

definition pre_process_tool :: "json \<Rightarrow> exn + json" where
  "pre_process_tool tool =
     seq (py_getitem tool (str ''function'')) (\<lambda>function.
     seq (py_getitem function (str ''name'')) (\<lambda>tool_name.
     seq (contains_slash tool_name) (\<lambda>has_slash.
       if has_slash then
         (case tool_name of
            JStr s \<Rightarrow>
              seq (py_setitem function (str ''name'') (JStr (encode_tool_name s))) (\<lambda>function'.
              py_setitem tool (str ''function'') function')
          | _ \<Rightarrow>
              Inl (AttributeError (quoted (type_name tool_name) @
                     '' object has no attribute '' @ quoted ''split'')))
       else Inr tool)))"

fun pre_process_tools :: "json list \<Rightarrow> exn + json list" where
  "pre_process_tools [] = Inr []"
| "pre_process_tools (tool # rest) =
     seq (pre_process_tool tool) (\<lambda>tool'.
     seq (pre_process_tools rest) (\<lambda>rest'. Inr (tool' # rest')))"

subsection \<open>\<open>tool_calling_input_format\<close>\<close>

definition prefix_prompt :: pystr where
  "prefix_prompt =
     str ''In and only in current step, you need to call tools. Available tools are: ''"

definition suffix_prompt :: pystr where
  "suffix_prompt =
     str ''Must call functions that are available. To call a function, respond '' @
     str ''immediately and only with a list of JSON object of the following format:'' @
     str ''[{\"name\":\"function_name_value\",\"parameters\":{\"parameter_name1\":\"parameter_value1\",'' @
     str ''\"parameter_name2\":\"parameter_value2\"}}]''"

text \<open>\<open>str(v)\<close>, as an f-string formats a value.\<close>

fun py_str :: "(json \<Rightarrow> pystr) \<Rightarrow> json \<Rightarrow> pystr" where
  "py_str rp (JStr s) = s"
| "py_str rp JNull = str ''None''"
| "py_str rp (JBool b) = (if b then str ''True'' else str ''False'')"
| "py_str rp (JInt i) = show_int i"
| "py_str rp v = rp v"

text \<open>The body of the loop, for one message.\<close>

definition translate_message :: "'t env \<Rightarrow> pydict \<Rightarrow> exn + pydict" where
  "translate_message env message =
     (case map_of message (str ''tool_calls'') of
        Some calls \<Rightarrow>
          Inr (AList.update (str ''content'') (JStr (dumps (float_text env) calls))
                 (AList.delete (str ''tool_calls'') message))
      | None \<Rightarrow>
          seq (dict_get message (str ''role'')) (\<lambda>role.
            if role = JStr (str ''tool'') then
              (let m1 = AList.update (str ''role'') (JStr (str ''user'')) message in
               seq (dict_get m1 (str ''tool_call_id'')) (\<lambda>tool_call_id.
               let m2 = AList.delete (str ''tool_call_id'') m1 in
               seq (dict_get m2 (str ''content'')) (\<lambda>content.
               let m3 = AList.delete (str ''content'') m2 in
               Inr (AList.update (str ''content'')
                      (JStr (str ''The result of the execution of function(id :'' @
                             py_str (py_repr env) tool_call_id @ str '') is: '' @
                             py_str (py_repr env) content @ str ''. ''))
                      m3))))
            else Inr message))"

fun translate_messages :: "'t env \<Rightarrow> pydict list \<Rightarrow> exn + pydict list" where
  "translate_messages env [] = Inr []"
| "translate_messages env (message # rest) =
     seq (translate_message env message) (\<lambda>message'.
     seq (translate_messages env rest) (\<lambda>rest'. Inr (message' # rest')))"

text \<open>\<open>v += text\<close> for the content \<open>v\<close> of a message: a list is extended by the characters.\<close>

fun iadd_str :: "json \<Rightarrow> pystr \<Rightarrow> exn + json" where
  "iadd_str (JStr s) t = Inr (JStr (s @ t))"
| "iadd_str (JArr vs) t = Inr (JArr (vs @ map (\<lambda>c. JStr [c]) t))"
| "iadd_str v t =
     Inl (TypeError (''unsupported operand type(s) for +=: '' @ quoted (type_name v) @
            '' and '' @ quoted ''str''))"

definition tool_calling_input_format ::
    "'t env \<Rightarrow> pydict list \<Rightarrow> json list \<Rightarrow> exn + pydict list" where
  "tool_calling_input_format env msgs tls =
     (let tool_prompt = dumps (float_text env) (JArr tls) in
      seq (translate_messages env msgs) (\<lambda>msgs'.
      seq (list_index msgs' (- 1)) (\<lambda>final.
      seq (dict_get final (str ''content'')) (\<lambda>content.
      seq (iadd_str content (prefix_prompt @ tool_prompt @ suffix_prompt)) (\<lambda>content'.
      Inr (butlast msgs' @ [AList.update (str ''content'') content' final]))))))"

subsection \<open>\<open>parse_json_format\<close>\<close>

text \<open>
  One \<open>if match: try: ... return json.dumps(json.loads(match.group(0))) except
  json.JSONDecodeError: pass\<close>. The result \<open>None\<close> is falling through to the next
  statement; \<open>Some\<close> is leaving the function, by \<open>return\<close> or by an exception that the
  \<open>except\<close> clause does not catch.
\<close>

definition reserialize :: "(pystr \<Rightarrow> pystr) \<Rightarrow> pystr option \<Rightarrow> (exn + pystr) option" where
  "reserialize ft found =
     (case found of
        None \<Rightarrow> None
      | Some substring \<Rightarrow>
          (case loads substring of
             Inr data \<Rightarrow> Some (Inr (dumps ft data))
           | Inl e \<Rightarrow> if exn_class e = ''JSONDecodeError'' then None else Some (Inl e)))"

definition parse_json_format :: "(pystr \<Rightarrow> pystr) \<Rightarrow> pystr \<Rightarrow> exn + pystr" where
  "parse_json_format ft message =
     (case reserialize ft (re_search json_array_pattern message) of
        Some result \<Rightarrow> result
      | None \<Rightarrow>
          (case reserialize ft (re_search json_object_pattern message) of
             Some result \<Rightarrow> result
           | None \<Rightarrow> Inr (str ''[]'')))"

subsection \<open>\<open>parse_tool_calls\<close>\<close>

text \<open>\<^verbatim>\<open>name.replace("__", "/")\<close>\<close>

definition decode_tool_name :: "pystr \<Rightarrow> pystr" where
  "decode_tool_name name = py_replace (str ''__'') (str ''/'') name"

text \<open>The body of the loop, for one tool call; \<open>new_id\<close> is the identifier just generated.\<close>

definition parse_tool_call :: "pystr \<Rightarrow> json \<Rightarrow> exn + json" where
  "parse_tool_call new_id tool_call =
     seq (py_setitem tool_call (str ''id'') (JStr new_id)) (\<lambda>tc1.
     seq (py_getitem tc1 (str ''name'')) (\<lambda>name.
       case name of
         JStr s \<Rightarrow> py_setitem tc1 (str ''name'') (JStr (decode_tool_name s))
       | _ \<Rightarrow>
           Inl (AttributeError (quoted (type_name name) @
                  '' object has no attribute '' @ quoted ''replace''))))"

text \<open>
  The loop. The state is the number of identifiers generated so far; an identifier is
  generated before the item is written to, so it is spent also when the item raises.
\<close>

fun parse_tool_call_list ::
    "(nat \<Rightarrow> pystr) \<Rightarrow> nat \<Rightarrow> json list \<Rightarrow> (exn + json list) \<times> nat" where
  "parse_tool_call_list ids n [] = (Inr [], n)"
| "parse_tool_call_list ids n (tool_call # rest) =
     (case parse_tool_call (ids n) tool_call of
        Inl e \<Rightarrow> (Inl e, Suc n)
      | Inr tc \<Rightarrow>
          (case parse_tool_call_list ids (Suc n) rest of
             (Inl e, n') \<Rightarrow> (Inl e, n')
           | (Inr tcs, n') \<Rightarrow> (Inr (tc # tcs), n')))"

text \<open>
  \<open>parse_tool_calls\<close>. A dictionary is wrapped in a list. The text that
  \<open>parse_json_format\<close> returns is an array or an object; for the other values the loop
  is written out all the same: the characters of a string are strings, which cannot be
  assigned to (an empty string is returned as it is, a sequence without items), and the
  remaining values cannot be iterated over.
\<close>

definition parse_tool_calls ::
    "(pystr \<Rightarrow> pystr) \<Rightarrow> (nat \<Rightarrow> pystr) \<Rightarrow> nat \<Rightarrow> pystr \<Rightarrow> (exn + json list) \<times> nat" where
  "parse_tool_calls ft ids n message =
     (case seq (parse_json_format ft message) loads of
        Inl e \<Rightarrow> (Inl e, n)
      | Inr (JObj d) \<Rightarrow> parse_tool_call_list ids n [JObj d]
      | Inr (JArr vs) \<Rightarrow> parse_tool_call_list ids n vs
      | Inr (JStr s) \<Rightarrow>
          (if s = [] then (Inr [], n)
           else (Inl (TypeError (quoted ''str'' @ '' object does not support item assignment'')),
                 Suc n))
      | Inr v \<Rightarrow> (Inl (TypeError (quoted (type_name v) @ '' object is not iterable'')), n))"

text \<open>The identifier that a tool call carries, if it is a dictionary with an \<open>id\<close>.\<close>

definition call_id :: "json \<Rightarrow> json option" where
  "call_id tool_call = (case tool_call of JObj d \<Rightarrow> map_of d (str ''id'') | _ \<Rightarrow> None)"

subsection \<open>\<open>address_syscall\<close>\<close>

text \<open>
  Lines 316 to 324: the masking of the key in the text of a backend error. The key is
  looked for after the first \<open>API key provided:\<close> and the character that follows it, up
  to the next full stop, or up to the next space when no full stop follows.
\<close>

definition mask_api_key :: "pystr \<Rightarrow> pystr" where
  "mask_api_key error_msg =
     (if sublist (str ''API key provided:'') error_msg then
        (let key_start = nat (py_find error_msg (str ''API key provided:'') 0) +
                         length (str ''API key provided: '');
             dot = py_find error_msg (str ''.'') key_start;
             key_end = (if dot = - 1 then py_find error_msg (str '' '') key_start else dot)
         in if key_end \<noteq> - 1 then
              (let api_key = slice error_msg key_start (nat key_end);
                   masked_key = (if length api_key > 4
                                 then take 2 api_key @ str ''****'' @ last2 api_key
                                 else str ''****'')
               in take key_start error_msg @ masked_key @ drop (nat key_end) error_msg)
            else error_msg)
      else error_msg)"

text \<open>Lines 313 to 338: the handler of an exception raised by the backend call.\<close>

definition backend_error_response :: "exn \<Rightarrow> LLMResponse" where
  "backend_error_response e =
     (let error_msg = mask_api_key (exn_str e) in
      if sublist (str ''Invalid API key'') error_msg \<or> sublist (str ''API key not found'') error_msg
      then \<lparr>response_message =
               Some (str ''Error: Invalid or missing API key for the selected model.''),
             tool_calls = None, error = Some error_msg, finished = True,
             status_code = Some 402\<rparr>
      else \<lparr>response_message = Some (str ''LLM Error: '' @ error_msg),
             tool_calls = None, error = Some error_msg, finished = True,
             status_code = Some 500\<rparr>)"

text \<open>Lines 351 to 358: the handler of the outer \<open>try\<close>.\<close>

definition system_error_response :: "exn \<Rightarrow> LLMResponse" where
  "system_error_response e =
     \<lparr>response_message = Some (str ''System Error: '' @ exn_str e),
      tool_calls = None, error = Some (exn_str e), finished = True,
      status_code = Some 500\<rparr>"

text \<open>Lines 274 to 279: the context saved for the process, if any.\<close>

definition restore_context :: "LLMAdapter \<Rightarrow> LLMSyscall \<Rightarrow> exn + pystr option" where
  "restore_context self llm_syscall =
     (case context_manager self of
        None \<Rightarrow> Inr None
      | Some cm \<Rightarrow>
          seq (check_restoration cm (pid llm_syscall)) (\<lambda>saved.
            if saved then seq (gen_recover cm (pid llm_syscall)) (\<lambda>ctx. Inr (Some ctx))
            else Inr None))"

text \<open>
  Lines 267 to 295, up to the choice of the model: the messages and tools as they are
  sent. \<open>set_status\<close> and \<open>set_start_time\<close> write to fields of the syscall that the
  function does not read, and are left out.
\<close>

definition prepare ::
    "'t env \<Rightarrow> LLMAdapter \<Rightarrow> LLMSyscall \<Rightarrow> exn + (pydict list \<times> json list option \<times> backend)" where
  "prepare env self llm_syscall =
     (let q = query llm_syscall;
          selected_llms = (case query_llms q of
                             Some (c # cs) \<Rightarrow> c # cs
                           | _ \<Rightarrow> llm_configs self)
      in
      seq (restore_context self llm_syscall) (\<lambda>restored_context.
      let msgs = (case restored_context of
                    Some (c # cs) \<Rightarrow>
                      messages q @ [[(str ''role'', JStr (str ''assistant'')),
                                     (str ''content'', JStr (c # cs))]]
                  | _ \<Rightarrow> messages q)
      in
      seq (case tools q of
             Some (t # ts) \<Rightarrow>
               seq (pre_process_tools (t # ts)) (\<lambda>tls.
               seq (tool_calling_input_format env msgs tls) (\<lambda>msgs'.
               Inr (msgs', Some tls)))
           | _ \<Rightarrow> Inr (msgs, tools q)) (\<lambda>(msgs, tls).
      seq (case strategy self of
             None \<Rightarrow>
               Inl (AttributeError (quoted ''LLMAdapter'' @ '' object has no attribute '' @
                      quoted ''strategy''))
           | Some get_model_idxs \<Rightarrow> get_model_idxs selected_llms) (\<lambda>model_idxs.
      seq (list_index model_idxs 0) (\<lambda>model_idx.
      seq (list_index (llms self) model_idx) (\<lambda>model.
      Inr (msgs, tls, model)))))))"

text \<open>Lines 299 to 312: the call of the backend, inside the inner \<open>try\<close>.\<close>

definition call_model :: "'t env \<Rightarrow> backend \<Rightarrow> pydict list \<Rightarrow> 't \<Rightarrow> exn + pystr" where
  "call_model env model msgs temperature =
     (case model of
        RemoteModel name \<Rightarrow> completion env name msgs temperature
      | _ \<Rightarrow> local_backend env model msgs temperature)"

text \<open>Lines 340 to 349: what is made of the text the backend returned.\<close>

definition text_response :: "'t env \<Rightarrow> pystr \<Rightarrow> pystr \<Rightarrow> exn + LLMResponse" where
  "text_response env ret_type res =
     seq (if ret_type = str ''json'' then parse_json_format (float_text env) res else Inr res)
       (\<lambda>res'. Inr \<lparr>response_message = Some res', tool_calls = None, error = None,
                     finished = True, status_code = None\<rparr>)"

definition post_process ::
    "'t env \<Rightarrow> json list option \<Rightarrow> pystr \<Rightarrow> pystr \<Rightarrow> nat \<Rightarrow> (exn + LLMResponse) \<times> nat" where
  "post_process env tls ret_type res n =
     (case tls of
        Some (t # ts) \<Rightarrow>
          (case parse_tool_calls (float_text env) (generator_tool_call_id env) n res of
             (Inl e, n') \<Rightarrow> (Inl e, n')
           | (Inr [], n') \<Rightarrow> (text_response env ret_type res, n')
           | (Inr (c # cs), n') \<Rightarrow>
               (Inr \<lparr>response_message = None, tool_calls = Some (c # cs), error = None,
                     finished = True, status_code = None\<rparr>, n'))
      | _ \<Rightarrow> (text_response env ret_type res, n))"

text \<open>The body of the outer \<open>try\<close>; \<open>n\<close> is the number of identifiers generated before.\<close>

definition address_syscall_body ::
    "'t env \<Rightarrow> LLMAdapter \<Rightarrow> LLMSyscall \<Rightarrow> 't \<Rightarrow> nat \<Rightarrow> (exn + LLMResponse) \<times> nat" where
  "address_syscall_body env self llm_syscall temperature n =
     (case prepare env self llm_syscall of
        Inl e \<Rightarrow> (Inl e, n)
      | Inr (msgs, tls, model) \<Rightarrow>
          (case call_model env model msgs temperature of
             Inl e \<Rightarrow> (Inr (backend_error_response e), n)
           | Inr res \<Rightarrow>
               post_process env tls (message_return_type (query llm_syscall)) res n))"

text \<open>\<open>address_syscall\<close>: the body, and the handler of whatever it raises.\<close>

definition address_syscall ::
    "'t env \<Rightarrow> LLMAdapter \<Rightarrow> LLMSyscall \<Rightarrow> 't \<Rightarrow> nat \<Rightarrow> (exn + LLMResponse) \<times> nat" where
  "address_syscall env self llm_syscall temperature n =
     (case address_syscall_body env self llm_syscall temperature n of
        (Inl e, n') \<Rightarrow> (Inr (system_error_response e), n')
      | (Inr response, n') \<Rightarrow> (Inr response, n'))"

subsection \<open>\<open>__init__\<close>\<close>

definition api_providers :: "(pystr \<times> pystr) list" where
  "api_providers =
     [(str ''openai'', str ''OPENAI_API_KEY''),
      (str ''gemini'', str ''GEMINI_API_KEY''),
      (str ''groq'', str ''GROQ_API_KEY''),
      (str ''anthropic'', str ''ANTHROPIC_API_KEY''),
      (str ''huggingface'', str ''HF_AUTH_TOKEN'')]"

text \<open>
  Lines 77 to 86: the keys found by \<open>config.get_api_key\<close> (a parameter) are written to
  the environment \<open>os.environ\<close>.
\<close>

definition set_api_key ::
    "(pystr \<Rightarrow> pystr option) \<Rightarrow> pystr \<times> pystr \<Rightarrow> (pystr \<rightharpoonup> pystr) \<Rightarrow> (pystr \<rightharpoonup> pystr)" where
  "set_api_key get_api_key pv environ =
     (case get_api_key (fst pv) of
        Some (c # cs) \<Rightarrow>
          (if fst pv = str ''huggingface''
           then (environ(snd pv \<mapsto> c # cs))(str ''HUGGING_FACE_API_KEY'' \<mapsto> c # cs)
           else environ(snd pv \<mapsto> c # cs))
      | _ \<Rightarrow> environ)"

definition set_api_keys ::
    "(pystr \<Rightarrow> pystr option) \<Rightarrow> (pystr \<rightharpoonup> pystr) \<Rightarrow> (pystr \<rightharpoonup> pystr)" where
  "set_api_keys get_api_key environ = fold (set_api_key get_api_key) api_providers environ"

text \<open>\<open>d.get(k, None)\<close>\<close>

definition dict_get_default :: "pydict \<Rightarrow> pystr \<Rightarrow> json" where
  "dict_get_default d k = (case map_of d k of None \<Rightarrow> JNull | Some v \<Rightarrow> v)"

text \<open>\<open>v + "/"\<close> on any value.\<close>

fun add_slash :: "json \<Rightarrow> exn + pystr" where
  "add_slash (JStr s) = Inr (s @ str ''/'')"
| "add_slash (JArr _) = Inl (TypeError ''can only concatenate list (not \"str\") to list'')"
| "add_slash v =
     Inl (TypeError (''unsupported operand type(s) for +: '' @ quoted (type_name v) @
            '' and '' @ quoted ''str''))"

text \<open>
  Lines 104 to 154: the body of the loop for one configuration. The result is the
  configuration, whose \<open>backend\<close> entry may have been rewritten, and what was
  appended to \<open>self.llms\<close>. The constructors of the local backends are taken to
  succeed; the objects are the arguments they were given.
\<close>

definition resolve_config :: "(pystr \<rightharpoonup> pystr) \<Rightarrow> pydict \<Rightarrow> exn + (pydict \<times> backend list)" where
  "resolve_config environ cfg =
     (let llm_name = dict_get_default cfg (str ''name'');
          llm_backend = dict_get_default cfg (str ''backend'');
          max_gpu_memory = dict_get_default cfg (str ''max_gpu_memory'');
          hostname = dict_get_default cfg (str ''hostname'')
      in
      if llm_backend = JStr (str ''hflocal'') then
        (if environ (str ''HUGGING_FACE_API_KEY'') = None
         then Inl (Exn ''ValueError''
                (str ''HUGGING_FACE_API_KEY not found in config or environment variables''))
         else Inr (cfg, [HfLocalBackend llm_name max_gpu_memory hostname]))
      else if llm_backend = JStr (str ''vllm'') then
        Inr (cfg, [VLLMLocalBackend llm_name max_gpu_memory hostname])
      else if llm_backend = JStr (str ''ollama'') then
        Inr (cfg, [OllamaBackend llm_name hostname])
      else if llm_backend = JNull then Inr (cfg, [])
      else
        (let cfg' = (if llm_backend = JStr (str ''google'')
                     then AList.update (str ''backend'') (JStr (str ''gemini'')) cfg
                     else cfg)
         in
         seq (add_slash (dict_get_default cfg' (str ''backend''))) (\<lambda>pre.
           case llm_name of
             JStr name \<Rightarrow>
               if prefix pre name then Inr (cfg', [])
               else Inr (cfg', [RemoteModel (pre @ name)])
           | _ \<Rightarrow>
               Inl (AttributeError (quoted (type_name llm_name) @
                      '' object has no attribute '' @ quoted ''startswith'')))))"

text \<open>The loop over the configurations: the configurations and \<open>self.llms\<close> at its end.\<close>

fun resolve_configs ::
    "(pystr \<rightharpoonup> pystr) \<Rightarrow> pydict list \<Rightarrow> exn + (pydict list \<times> backend list)" where
  "resolve_configs environ [] = Inr ([], [])"
| "resolve_configs environ (cfg # rest) =
     seq (resolve_config environ cfg) (\<lambda>(cfg', new).
     seq (resolve_configs environ rest) (\<lambda>(rest', more).
     Inr (cfg' # rest', new @ more)))"

text \<open>
  \<open>__init__\<close>. \<open>cm\<close> is the context manager, if one is asked for; \<open>simple\<close> is
  \<open>SimpleStrategy\<close>, from the configurations to its method \<open>get_model_idxs\<close>, and
  \<open>is_simple\<close> says whether the strategy asked for is \<open>RouterStrategy.SIMPLE\<close>.
\<close>

definition init ::
    "(pystr \<Rightarrow> pystr option) \<Rightarrow> (pystr \<rightharpoonup> pystr) \<Rightarrow> pydict list \<Rightarrow> SimpleContextManager option \<Rightarrow>
     bool \<Rightarrow> (pydict list \<Rightarrow> pydict list \<Rightarrow> exn + int list) \<Rightarrow> exn + LLMAdapter" where
  "init get_api_key environ configs cm is_simple simple =
     seq (resolve_configs (set_api_keys get_api_key environ) configs) (\<lambda>(configs', backends).
     Inr \<lparr>llm_configs = configs', llms = backends, context_manager = cm,
          strategy = (if is_simple then Some (simple configs') else None)\<rparr>)"

section \<open>Example collaborators and requests\<close>

text \<open>
  A backend that gives the same reply, a text or an exception, to every call; an adapter
  with one remote model; a request with one user message.
\<close>

text \<open>
  The examples contain no float. \<open>example_float_text\<close> writes a float as it was read,
  which is what Python does for a numeral already in its shortest form, such as \<open>1.5\<close>.
\<close>

definition example_float_text :: "pystr \<Rightarrow> pystr" where
  "example_float_text lexeme = lexeme"

text \<open>An identifier generator: the \<open>n\<close>-th identifier is \<open>n + 1\<close> times the letter \<open>i\<close>.\<close>

definition example_ids :: "nat \<Rightarrow> pystr" where
  "example_ids n = replicate (Suc n) 0x69"

definition example_env :: "(exn + pystr) \<Rightarrow> unit env" where
  "example_env reply =
     \<lparr>float_text = example_float_text, py_repr = (\<lambda>v. []),
      generator_tool_call_id = example_ids,
      completion = (\<lambda>model msgs temperature. reply),
      local_backend = (\<lambda>model msgs temperature. reply)\<rparr>"

definition example_adapter :: LLMAdapter where
  "example_adapter =
     \<lparr>llm_configs = [[(str ''name'', JStr (str ''gpt-4o-mini'')),
                      (str ''backend'', JStr (str ''openai''))]],
      llms = [RemoteModel (str ''openai/gpt-4o-mini'')],
      context_manager = None,
      strategy = Some (\<lambda>selected. Inr [0])\<rparr>"

definition example_tools :: "json list" where
  "example_tools =
     [JObj [(str ''type'', JStr (str ''function'')),
            (str ''function'', JObj [(str ''name'', JStr (str ''travel/book'')),
                                     (str ''parameters'', JObj [])])]]"

definition example_syscall :: "json list option \<Rightarrow> pystr \<Rightarrow> LLMSyscall" where
  "example_syscall tls ret_type =
     \<lparr>query = \<lparr>messages = [[(str ''role'', JStr (str ''user'')),
                             (str ''content'', JStr (str ''Book a flight''))]],
               tools = tls, message_return_type = ret_type, query_llms = None\<rparr>,
      pid = 1\<rparr>"


section \<open>Properties of the tool-name encoding\<close>

lemma py_split1_nonempty: "py_split1 c s \<noteq> []"
  by (induction s) auto

lemma py_join_Cons_Cons: "ws \<noteq> [] \<Longrightarrow> py_join sep ((x # hd ws) # tl ws) = x # py_join sep ws"
  by (cases ws; cases "tl ws") auto

lemma py_join_Nil_Cons: "ws \<noteq> [] \<Longrightarrow> py_join sep ([] # ws) = sep @ py_join sep ws"
  by (cases ws) auto

text \<open>Splitting at a character and joining with \<open>sep\<close> puts \<open>sep\<close> for each occurrence.\<close>

lemma join_split1:
  "py_join sep (py_split1 c s) = concat (map (\<lambda>x. if x = c then sep else [x]) s)"
  by (induction s) (simp_all add: py_split1_nonempty py_join_Cons_Cons py_join_Nil_Cons)

lemma py_replace_Nil: "old \<noteq> [] \<Longrightarrow> py_replace old new [] = []"
  by (subst py_replace.simps) simp

lemma py_replace_hit:
  "old \<noteq> [] \<Longrightarrow> py_replace old new (old @ s) = new @ py_replace old new s"
  by (subst py_replace.simps) simp

lemma py_replace_miss:
  "old \<noteq> [] \<Longrightarrow> \<not> prefix old (c # cs) \<Longrightarrow>
   py_replace old new (c # cs) = c # py_replace old new cs"
  by (subst py_replace.simps) simp

lemma encode_tool_name_eq:
  "encode_tool_name s = concat (map (\<lambda>x. if x = 47 then [95, 95] else [x]) s)"
  by (simp add: encode_tool_name_def join_split1 str_def)

text \<open>
  Decoding undoes encoding exactly on the names in which no underscore is followed by
  another underscore or by the separator.
\<close>

lemma decode_encode_iff:
  "py_replace [95, 95] [47] (concat (map (\<lambda>x. if x = 47 then [95, 95] else [x]) s)) = s
   \<longleftrightarrow> \<not> sublist [95, 95] s \<and> \<not> sublist [95, 47] (s :: pystr)"
proof (induction s)
  case Nil
  then show ?case by (simp add: py_replace_Nil)
next
  case (Cons x s)
  let ?enc = "\<lambda>s. concat (map (\<lambda>x. if x = (47::nat) then [95, 95] else [x]) s)"
  show ?case
  proof (cases "x = 47")
    case True
    then show ?thesis
      using Cons.IH py_replace_hit[of "[95, 95]" "[47]" "?enc s"]
      by (simp add: sublist_Cons_right)
  next
    case x: False
    show ?thesis
    proof (cases "prefix [95, 95] (x # ?enc s)")
      case True
      then obtain r where r: "x = 95" "?enc s = 95 # r"
        by (auto simp: prefix_def)
      then have "py_replace [95, 95] [47] (?enc (x # s)) = 47 # py_replace [95, 95] [47] r"
        using py_replace_hit[of "[95, 95]" "[47]" r] by simp
      moreover have "prefix [95, 95] (x # s) \<or> prefix [95, 47] (x # s)"
        using r by (cases s) (auto split: if_splits)
      ultimately show ?thesis using r(1) by (auto simp: sublist_Cons_right)
    next
      case False
      then have "\<not> prefix [95, 95] (x # s)" "\<not> prefix [95, 47] (x # s)"
        by (cases s; auto)+
      then show ?thesis
        using False x Cons.IH by (simp add: py_replace_miss sublist_Cons_right)
    qed
  qed
qed

text \<open>
  C6, as amended. Encoding a tool name as \<open>pre_process_tools\<close> does and decoding it as
  \<open>parse_tool_calls\<close> does gives the name back exactly when the name contains neither
  two underscores in a row nor an underscore directly before the separator.
\<close>

theorem tool_name_round_trip:
  "sublist (str ''/'') name \<Longrightarrow>
   decode_tool_name (encode_tool_name name) = name
   \<longleftrightarrow> \<not> sublist (str ''__'') name \<and> \<not> sublist (str ''_/'') name"
  using decode_encode_iff[of name]
  by (simp add: decode_tool_name_def encode_tool_name_eq str_def)

theorem tool_name_round_trip_witness:
  "sublist (str ''/'') (str ''travel/book'') \<and>
   decode_tool_name (encode_tool_name (str ''travel/book'')) = str ''travel/book''"
proof -
  have h: "sublist (str ''/'') (str ''travel/book'')"
    by (simp add: str_def sublist_Cons_right)
  have "\<not> sublist (str ''__'') (str ''travel/book'') \<and>
        \<not> sublist (str ''_/'') (str ''travel/book'')"
    by (simp add: str_def sublist_Cons_right)
  with h tool_name_round_trip[OF h] show ?thesis by simp
qed

text \<open>
  C6 as stated fails: the name \<open>a_/b\<close> contains the separator, is encoded as \<open>a___b\<close>,
  and is decoded as \<open>a/_b\<close>.
\<close>

theorem tool_name_round_trip_counterexample:
  "sublist (str ''/'') (str ''a_/b'') \<and>
   encode_tool_name (str ''a_/b'') = str ''a___b'' \<and>
   decode_tool_name (encode_tool_name (str ''a_/b'')) = str ''a/_b'' \<and>
   decode_tool_name (encode_tool_name (str ''a_/b'')) \<noteq> str ''a_/b''"
  by (simp add: str_def sublist_Cons_right encode_tool_name_def decode_tool_name_def
      py_replace.simps[of "[95, 95]"])

section \<open>Evaluation of the examples\<close>

lemmas str_eval = str_def sublist_Cons_right

lemmas re_eval = json_array_pattern_def json_object_pattern_def lit_def re_dot_def re_space_def


lemmas json_eval = loads_def scan_once.simps scan_items.simps scan_pairs.simps skip_ws_def
  json_ws_def scan_atom_def scan_number_def scan_int_part_def scan_frac_def scan_exp_def
  is_digit_def int_of_text_def nat_of_digits_def dict_of_pairs_def unescape_def
  decode_hex4_def hex_val_def


lemma example_prepare:
  "prepare (example_env reply) example_adapter (example_syscall None rt) =
   Inr ([[(str ''role'', JStr (str ''user'')), (str ''content'', JStr (str ''Book a flight''))]],
        None, RemoteModel (str ''openai/gpt-4o-mini''))"
  by (simp add: prepare_def example_env_def example_adapter_def example_syscall_def
      restore_context_def seq_def list_index_def)


lemma example_call_model:
  "call_model (example_env reply) (RemoteModel name) msgs temperature = reply"
  by (simp add: call_model_def example_env_def)


section \<open>Properties of the JSON decoder\<close>

text \<open>
  Every scanner consumes input, so the length tests in \<open>scan_items\<close> and \<open>scan_pairs\<close>,
  which are there for the termination proof, always succeed.
\<close>

lemma scanstring_shorter: "scanstring s = Some (x, r) \<Longrightarrow> length r < length s"
proof (induction s arbitrary: x r rule: scanstring.induct)
  case 1
  then show ?case by simp
next
  case (2 c cs)
  show ?case
  proof (cases "c = 0x22")
    case True
    with "2.prems" show ?thesis by simp
  next
    case nq: False
    show ?thesis
    proof (cases "c = 0x5C")
      case False
      with nq "2.prems" obtain y where "scanstring cs = Some (y, r)"
        by (auto split: if_splits)
      with "2.IH"(5)[OF nq False _ this] "2.prems" nq False show ?thesis
        by (auto split: if_splits)
    next
      case True
      with "2.prems" obtain e t where cs: "cs = e # t"
        by (cases cs) auto
      show ?thesis
      proof (cases "e = 0x75")
        case False
        with "2.prems" True cs obtain y z where "unescape e = Some z" "scanstring t = Some (y, r)"
          by (auto split: option.splits)
        with "2.IH"(4)[OF nq True cs False] cs show ?thesis by fastforce
      next
        case u: True
        from "2.prems" True cs u obtain cp where cp: "decode_hex4 t = Some cp"
          by (auto split: option.splits)
        consider (pair) cp2 y where "0xD800 \<le> cp \<and> cp \<le> 0xDBFF \<and> prefix [0x5C, 0x75] (drop 4 t)"
            "decode_hex4 (drop 6 t) = Some cp2" "0xDC00 \<le> cp2 \<and> cp2 \<le> 0xDFFF"
            "scanstring (drop 10 t) = Some (y, r)"
          | (single) y where "scanstring (drop 4 t) = Some (y, r)"
          using "2.prems" True cs u cp nq
          by (auto split: option.splits if_splits)
        then show ?thesis
        proof cases
          case pair
          from "2.IH"(1)[OF nq True cs u cp pair(1) pair(2) pair(3) pair(4)] cs
          show ?thesis by simp
        next
          case single
          have "length r < length (drop 4 t)"
          proof (cases "0xD800 \<le> cp \<and> cp \<le> 0xDBFF \<and> prefix [0x5C, 0x75] (drop 4 t)")
            case False
            from "2.IH"(3)[OF nq True cs u cp False single] show ?thesis .
          next
            case hs: True
            with "2.prems" True cs u cp nq single obtain cp2 where
              cp2: "decode_hex4 (drop 6 t) = Some cp2"
              by (auto split: option.splits)
            show ?thesis
            proof (cases "0xDC00 \<le> cp2 \<and> cp2 \<le> 0xDFFF")
              case False
              from "2.IH"(2)[OF nq True cs u cp hs cp2 False single] show ?thesis .
            next
              case True
              with "2.prems" \<open>c = 0x5C\<close> cs u cp nq hs cp2 obtain y' where
                "scanstring (drop 10 t) = Some (y', r)"
                by (auto split: option.splits)
              from "2.IH"(1)[OF nq \<open>c = 0x5C\<close> cs u cp hs cp2 True this] show ?thesis by simp
            qed
          qed
          with cs show ?thesis by simp
        qed
      qed
    qed
  qed
qed

lemma length_dropWhile_le': "length (dropWhile p s) \<le> length s"
  by (induction s) auto

lemma scan_int_part_shorter: "scan_int_part s = Some (t, r) \<Longrightarrow> length r < length s"
proof -
  assume a: "scan_int_part s = Some (t, r)"
  define sign where "sign = takeWhile (\<lambda>c. c = 0x2D) (take 1 s)"
  from a obtain d r0 where d: "drop (length sign) s = d # r0" and r: "length r \<le> length r0"
    by (auto simp: scan_int_part_def sign_def Let_def length_dropWhile_le'
             split: list.splits if_splits)
  have "length (drop (length sign) s) \<le> length s" by simp
  with d r show ?thesis by simp
qed

lemma scan_frac_shorter: "scan_frac s = (f, r) \<Longrightarrow> length r \<le> length s"
  by (auto simp: scan_frac_def split: list.splits if_splits
           intro: le_trans[OF length_dropWhile_le'])

lemma scan_exp_shorter: "scan_exp s = (e, r) \<Longrightarrow> length r \<le> length s"
proof -
  assume a: "scan_exp s = (e, r)"
  show ?thesis
  proof (cases "r = s")
    case True
    then show ?thesis by simp
  next
    case False
    with a obtain c r0 where s: "s = c # r0"
      and r: "r = dropWhile is_digit (drop (length (takeWhile (\<lambda>x. x = 0x2D \<or> x = 0x2B) (take 1 r0))) r0)"
      by (auto simp: scan_exp_def Let_def split: list.splits if_splits)
    have "length r \<le> length (drop (length (takeWhile (\<lambda>x. x = 0x2D \<or> x = 0x2B) (take 1 r0))) r0)"
      unfolding r by (rule length_dropWhile_le')
    also have "\<dots> \<le> length r0" by simp
    finally show ?thesis using s by simp
  qed
qed

lemma scan_number_shorter: "scan_number s = Some (v, r) \<Longrightarrow> length r < length s"
proof -
  assume a: "scan_number s = Some (v, r)"
  then obtain t r0 where i: "scan_int_part s = Some (t, r0)"
    by (auto simp: scan_number_def split: option.splits)
  obtain f r1 where f: "scan_frac r0 = (f, r1)" by (cases "scan_frac r0")
  obtain e r2 where e: "scan_exp r1 = (e, r2)" by (cases "scan_exp r1")
  from a i f e have "r = r2"
    by (auto simp: scan_number_def split: if_splits)
  with scan_int_part_shorter[OF i] scan_frac_shorter[OF f] scan_exp_shorter[OF e]
  show ?thesis by simp
qed

lemma scan_atom_shorter: "scan_atom s = Some (v, r) \<Longrightarrow> length r < length s"
proof -
  assume a: "scan_atom s = Some (v, r)"
  have p: "prefix t s \<Longrightarrow> t \<noteq> [] \<Longrightarrow> length (drop (length t) s) < length s" for t
    by (auto simp: prefix_def)
  from a show ?thesis
    using p[of "str ''null''"] p[of "str ''true''"] p[of "str ''false''"] p[of "str ''NaN''"]
      p[of "str ''Infinity''"] p[of "str ''-Infinity''"]
    by (auto simp: scan_atom_def str_def split: if_splits option.splits
             dest: scan_number_shorter)
qed

lemma scan_shorter:
  "(\<forall>v r. scan_once s = Some (v, r) \<longrightarrow> length r < length s)"
  "(\<forall>vs r. scan_items s1 = Some (vs, r) \<longrightarrow> length r < length s1)"
  "(\<forall>ps r. scan_pairs s2 = Some (ps, r) \<longrightarrow> length r < length s2)"
proof (induction s and s1 and s2 rule: scan_once_scan_items_scan_pairs.induct)
  case (1 s)
  show ?case
  proof (intro allI impI)
    fix v r
    assume a: "scan_once s = Some (v, r)"
    then obtain c t where s: "s = c # t"
      by (subst (asm) scan_once.simps) (auto split: list.splits)
    have w: "length (skip_ws t) \<le> length t" by (rule length_skip_ws)
    consider (q) "c = 0x22" | (o) "c \<noteq> 0x22" "c = 0x7B" | (a) "c \<noteq> 0x22" "c \<noteq> 0x7B" "c = 0x5B"
      | (x) "c \<noteq> 0x22" "c \<noteq> 0x7B" "c \<noteq> 0x5B" by blast
    then show "length r < length s"
    proof cases
      case q
      with a s obtain x where "scanstring t = Some (x, r)"
        by (subst (asm) scan_once.simps) auto
      from scanstring_shorter[OF this] s show ?thesis by simp
    next
      case o
      show ?thesis
      proof (cases "prefix [0x7D] (skip_ws t)")
        case True
        with a s o have "r = drop 1 (skip_ws t)"
          by (subst (asm) scan_once.simps) auto
        with w s show ?thesis by simp
      next
        case False
        with a s o obtain ps where "scan_pairs (skip_ws t) = Some (ps, r)"
          by (subst (asm) scan_once.simps) auto
        with "1.IH"(1)[OF s o(1) o(2) False] w s show ?thesis by fastforce
      qed
    next
      case a': a
      show ?thesis
      proof (cases "prefix [0x5D] (skip_ws t)")
        case True
        with a s a' have "r = drop 1 (skip_ws t)"
          by (subst (asm) scan_once.simps) auto
        with w s show ?thesis by simp
      next
        case False
        with a s a' obtain vs where "scan_items (skip_ws t) = Some (vs, r)"
          by (subst (asm) scan_once.simps) auto
        with "1.IH"(2)[OF s a'(1) a'(2) a'(3) False] w s show ?thesis by fastforce
      qed
    next
      case x
      with a s have "scan_atom s = Some (v, r)"
        by (subst (asm) scan_once.simps) auto
      then show ?thesis by (rule scan_atom_shorter)
    qed
  qed
next
  case (2 s)
  show ?case
  proof (intro allI impI)
    fix vs r
    assume a: "scan_items s = Some (vs, r)"
    then obtain v r0 where o: "scan_once s = Some (v, r0)"
      by (subst (asm) scan_items.simps) (auto split: option.splits)
    with "2.IH"(1) have l0: "length r0 < length s" by simp
    from a o obtain d r' where d: "skip_ws r0 = d # r'"
      by (subst (asm) scan_items.simps) (auto split: list.splits)
    have "length (skip_ws r0) \<le> length r0" by (rule length_skip_ws)
    with d l0 have l1: "length r' < length s" by simp
    show "length r < length s"
    proof (cases "d = 0x5D")
      case True
      with a o d have "r = r'" by (subst (asm) scan_items.simps) auto
      with l1 show ?thesis by simp
    next
      case False
      with a o d have c: "d = 0x2C \<and> length r' < length s"
        by (subst (asm) scan_items.simps) (auto split: if_splits)
      with a o d False obtain ws where i: "scan_items (skip_ws r') = Some (ws, r)"
        by (subst (asm) scan_items.simps) auto
      from "2.IH"(2)[OF o refl d False c] i
      have "length r < length (skip_ws r')" by simp
      also have "\<dots> \<le> length r'" by (rule length_skip_ws)
      finally show ?thesis using l1 by simp
    qed
  qed
next
  case (3 s)
  show ?case
  proof (intro allI impI)
    fix ps r
    assume a: "scan_pairs s = Some (ps, r)"
    then obtain q r0 where s: "s = q # r0" and q: "\<not> q \<noteq> 0x22"
      by (subst (asm) scan_pairs.simps) (auto split: list.splits if_splits)
    from a s q obtain key r1 where k: "scanstring r0 = Some (key, r1)"
      by (subst (asm) scan_pairs.simps) (auto split: option.splits)
    from a s q k have g: "\<not> (\<not> prefix [0x3A] (skip_ws r1) \<or> \<not> length r1 \<le> length r0)"
      by (subst (asm) scan_pairs.simps) (auto split: if_splits)
    from a s q k g obtain v r2 where
      o: "scan_once (skip_ws (drop 1 (skip_ws r1))) = Some (v, r2)"
      by (subst (asm) scan_pairs.simps) (auto split: option.splits)
    from "3.IH"(1)[OF s q k refl g] o
    have "length r2 < length (skip_ws (drop 1 (skip_ws r1)))" by simp
    also have "\<dots> \<le> length (drop 1 (skip_ws r1))" by (rule length_skip_ws)
    also have "\<dots> \<le> length (skip_ws r1)" by simp
    also have "\<dots> \<le> length r1" by (rule length_skip_ws)
    finally have l2: "length r2 < length s" using g s by simp
    from a s q k g o obtain d r3 where d: "skip_ws r2 = d # r3"
      by (subst (asm) scan_pairs.simps) (auto split: list.splits)
    have "length (skip_ws r2) \<le> length r2" by (rule length_skip_ws)
    with d l2 have l3: "length r3 < length s" by simp
    show "length r < length s"
    proof (cases "d = 0x7D")
      case True
      with a s q k g o d have "r = r3" by (subst (asm) scan_pairs.simps) auto
      with l3 show ?thesis by simp
    next
      case False
      with a s q k g o d have c: "d = 0x2C \<and> length r3 < length s"
        by (subst (asm) scan_pairs.simps) (auto split: if_splits)
      with a s q k g o d False obtain qs where i: "scan_pairs (skip_ws r3) = Some (qs, r)"
        by (subst (asm) scan_pairs.simps) auto
      from "3.IH"(2)[OF s q k refl g o refl d False c] i
      have "length r < length (skip_ws r3)" by simp
      also have "\<dots> \<le> length r3" by (rule length_skip_ws)
      finally show ?thesis using l3 by simp
    qed
  qed
qed

lemma scan_items_unguarded:
  "scan_items s =
     (case scan_once s of
        None \<Rightarrow> None
      | Some (v, r) \<Rightarrow>
          (case skip_ws r of
             [] \<Rightarrow> None
           | d # r' \<Rightarrow>
               if d = 0x5D then Some ([v], r')
               else if d = 0x2C then map_option (apfst ((#) v)) (scan_items (skip_ws r'))
               else None))"
proof (cases "scan_once s")
  case None
  then show ?thesis by (subst scan_items.simps) simp
next
  case (Some vr)
  obtain v r where vr: "vr = (v, r)" by (cases vr)
  with Some scan_shorter(1)[of s] have l: "length r < length s" by simp
  show ?thesis
  proof (cases "skip_ws r")
    case Nil
    with Some vr show ?thesis by (subst scan_items.simps) simp
  next
    case (Cons d r')
    with length_skip_ws[of r] l have "length r' < length s" by simp
    with Some vr Cons show ?thesis by (subst scan_items.simps) simp
  qed
qed

lemma scan_pairs_unguarded:
  "scan_pairs s =
     (case s of
        [] \<Rightarrow> None
      | q # r0 \<Rightarrow>
          if q \<noteq> 0x22 then None
          else
            (case scanstring r0 of
               None \<Rightarrow> None
             | Some (key, r1) \<Rightarrow>
                 if \<not> prefix [0x3A] (skip_ws r1) then None
                 else
                   (case scan_once (skip_ws (drop 1 (skip_ws r1))) of
                      None \<Rightarrow> None
                    | Some (v, r2) \<Rightarrow>
                        (case skip_ws r2 of
                           [] \<Rightarrow> None
                         | d # r3 \<Rightarrow>
                             if d = 0x7D then Some ([(key, v)], r3)
                             else if d = 0x2C
                             then map_option (apfst ((#) (key, v))) (scan_pairs (skip_ws r3))
                             else None))))"
proof (cases s)
  case Nil
  then show ?thesis by (subst scan_pairs.simps) simp
next
  case (Cons q r0)
  show ?thesis
  proof (cases "scanstring r0")
    case None
    with Cons show ?thesis by (subst scan_pairs.simps) simp
  next
    case (Some kr)
    obtain key r1 where kr: "kr = (key, r1)" by (cases kr)
    with Some scanstring_shorter[of r0 key r1] have l1: "length r1 < length r0" by simp
    show ?thesis
    proof (cases "scan_once (skip_ws (drop 1 (skip_ws r1)))")
      case None
      with Cons Some kr show ?thesis by (subst scan_pairs.simps) simp
    next
      case o: (Some vr)
      obtain v r2 where vr: "vr = (v, r2)" by (cases vr)
      with o scan_shorter(1)[of "skip_ws (drop 1 (skip_ws r1))"]
      have "length r2 < length (skip_ws (drop 1 (skip_ws r1)))" by simp
      also have "\<dots> \<le> length (drop 1 (skip_ws r1))" by (rule length_skip_ws)
      also have "\<dots> \<le> length (skip_ws r1)" by simp
      also have "\<dots> \<le> length r1" by (rule length_skip_ws)
      finally have l2: "length r2 < length r0" using l1 by simp
      show ?thesis
      proof (cases "skip_ws r2")
        case Nil
        with Cons Some kr o vr show ?thesis by (subst scan_pairs.simps) simp
      next
        case d: (Cons d r3)
        with length_skip_ws[of r2] l2 have "length r3 < length s" using Cons by simp
        with Cons Some kr o vr d l1 show ?thesis by (subst scan_pairs.simps) simp
      qed
    qed
  qed
qed








lemma length_hex4 [simp]: "length (hex4 n) = 4"
  by (simp add: hex4_def)



































section \<open>Properties of the dispatcher\<close>


lemma text_response_finished: "text_response env rt res = Inr r \<Longrightarrow> finished r"
  by (auto simp: text_response_def seq_def split: sum.splits if_splits)

lemma backend_error_response_finished: "finished (backend_error_response e)"
  by (simp add: backend_error_response_def Let_def)

lemma post_process_finished: "fst (post_process env tls rt res n) = Inr r \<Longrightarrow> finished r"
  by (auto simp: post_process_def split: option.splits list.splits prod.splits sum.splits
           dest: text_response_finished)

lemma body_finished: "fst (address_syscall_body env self sc t n) = Inr r \<Longrightarrow> finished r"
  by (auto simp: address_syscall_body_def backend_error_response_finished
           split: sum.splits prod.splits dest: post_process_finished)


text \<open>
  C9. On every path the response that \<open>address_syscall\<close> returns has
  \<open>finished = True\<close>: the two backend-error responses, the tool-call response, the
  text response (JSON-shaped or plain) and the response of the outer handler.
\<close>

theorem address_syscall_finished:
  "\<exists>response. fst (address_syscall env self llm_syscall temperature n) = Inr response \<and>
     finished response"
proof (cases "address_syscall_body env self llm_syscall temperature n")
  case (Pair r n')
  show ?thesis
  proof (cases r)
    case (Inl e)
    with Pair show ?thesis by (simp add: address_syscall_def system_error_response_def)
  next
    case (Inr response)
    with Pair body_finished[of env self llm_syscall temperature n response]
    show ?thesis by (simp add: address_syscall_def)
  qed
qed




lemma mask_api_key_unmarked:
  "\<not> sublist (str ''API key provided:'') error_msg \<Longrightarrow> mask_api_key error_msg = error_msg"
  unfolding mask_api_key_def by (rule if_not_P)

text \<open>
  C2, as amended. When the call of the backend raises \<open>e\<close>, the response carries the text
  of \<open>e\<close> after masking as its error. If that text contains \<open>Invalid API key\<close> or
  \<open>API key not found\<close>, the status code is 402 and the message is the fixed one;
  otherwise the status code is 500 and the message is \<open>LLM Error: \<close> followed by the
  text. A text without \<open>API key provided:\<close> is not changed by the masking.
\<close>

theorem backend_failure_response:
  assumes "prepare env self llm_syscall = Inr (msgs, tls, model)"
    and "call_model env model msgs temperature = Inl e"
  shows "\<exists>response error_msg.
           fst (address_syscall env self llm_syscall temperature n) = Inr response \<and>
           error_msg = mask_api_key (exn_str e) \<and>
           error response = Some error_msg \<and>
           (if sublist (str ''Invalid API key'') error_msg \<or>
               sublist (str ''API key not found'') error_msg
            then status_code response = Some 402 \<and>
                 response_message response =
                   Some (str ''Error: Invalid or missing API key for the selected model.'')
            else status_code response = Some 500 \<and>
                 response_message response = Some (str ''LLM Error: '' @ error_msg)) \<and>
           (\<not> sublist (str ''API key provided:'') (exn_str e) \<longrightarrow> error_msg = exn_str e)"
proof -
  have "fst (address_syscall env self llm_syscall temperature n) = Inr (backend_error_response e)"
    using assms by (simp add: address_syscall_def address_syscall_body_def)
  then show ?thesis
    using mask_api_key_unmarked[of "exn_str e"]
    by (simp add: backend_error_response_def Let_def)
qed

theorem backend_failure_response_witness:
  "\<exists>response.
     fst (address_syscall (example_env (Inl (Exn ''AuthenticationError'' (str ''Invalid API key''))))
            example_adapter (example_syscall None (str ''text'')) () 0) = Inr response \<and>
     status_code response = Some 402"
proof -
  have m: "mask_api_key (str ''Invalid API key'') = str ''Invalid API key''"
    by (simp add: mask_api_key_def str_eval)
  have s: "sublist (str ''Invalid API key'') (str ''Invalid API key'')"
    by simp
  show ?thesis
    using backend_failure_response[OF example_prepare example_call_model,
        of "Exn ''AuthenticationError'' (str ''Invalid API key'')" "str ''text''" "()" 0] m s
    by auto
qed


text \<open>
  C2 as stated fails: the text \<open>API key not found\<close> does not contain
  \<open>Invalid API key\<close>, and a backend failure with this text is answered with status
  code 402.
\<close>

theorem backend_failure_status_counterexample:
  "\<not> sublist (str ''Invalid API key'') (str ''API key not found'') \<and>
   call_model (example_env (Inl (Exn ''AuthenticationError'' (str ''API key not found''))))
     (RemoteModel (str ''openai/gpt-4o-mini''))
     [[(str ''role'', JStr (str ''user'')), (str ''content'', JStr (str ''Book a flight''))]] ()
     = Inl (Exn ''AuthenticationError'' (str ''API key not found'')) \<and>
   fst (address_syscall (example_env (Inl (Exn ''AuthenticationError'' (str ''API key not found''))))
          example_adapter (example_syscall None (str ''text'')) () 0) =
   Inr \<lparr>response_message =
           Some (str ''Error: Invalid or missing API key for the selected model.''),
         tool_calls = None, error = Some (str ''API key not found''), finished = True,
         status_code = Some 402\<rparr>"
proof -
  have m: "mask_api_key (str ''API key not found'') = str ''API key not found''"
    by (simp add: mask_api_key_def str_eval)
  have n: "\<not> sublist (str ''Invalid API key'') (str ''API key not found'')"
    by (simp add: str_eval)
  show ?thesis
    using m n
    by (simp add: address_syscall_def address_syscall_body_def example_prepare
        example_call_model backend_error_response_def)
qed












section \<open>Properties of \<open>parse_json_format\<close>\<close>











lemma re_space_not_brackets [simp]:
  "\<not> re_space 0x5B" "\<not> re_space 0x5D" "\<not> re_space 0x7B" "\<not> re_space 0x7D"
  by (simp_all add: re_space_def)







section \<open>Properties of \<open>parse_tool_calls\<close>\<close>

lemma parse_tool_call_id:
  assumes "parse_tool_call new_id tool_call = Inr tc"
  shows "call_id tc = Some (JStr new_id)"
proof (cases tool_call)
  case (JObj d)
  have ne: "str ''name'' \<noteq> str ''id''" by (simp add: str_def)
  from assms JObj show ?thesis
    by (auto simp: parse_tool_call_def seq_def dict_get_def call_id_def update_conv' ne
             ne[symmetric] split: option.splits json.splits)
qed (use assms in \<open>simp_all add: parse_tool_call_def seq_def\<close>)

lemma parse_tool_call_list_ids:
  "parse_tool_call_list ids n vs = (Inr calls, n') \<Longrightarrow>
   map call_id calls = map (\<lambda>i. Some (JStr (ids i))) [n..<n + length vs] \<and>
   length calls = length vs \<and> n' = n + length vs"
proof (induction vs arbitrary: n calls)
  case Nil
  then show ?case by simp
next
  case (Cons v vs)
  from Cons.prems obtain tc tcs where
    tc: "parse_tool_call (ids n) v = Inr tc" and
    tcs: "parse_tool_call_list ids (Suc n) vs = (Inr tcs, n')" and
    calls: "calls = tc # tcs"
    by (auto split: sum.splits prod.splits)
  have "[n..<n + length (v # vs)] = n # [Suc n..<Suc n + length vs]"
    by (subst upt_rec) simp
  with Cons.IH[OF tcs] parse_tool_call_id[OF tc] calls show ?case
    by simp
qed

lemma scan_once_shape:
  assumes "scan_once s = Some (v, r)"
  shows "(prefix [0x5B] s \<longrightarrow> (\<exists>vs. v = JArr vs)) \<and> (prefix [0x7B] s \<longrightarrow> (\<exists>d. v = JObj d))"
proof (cases s)
  case Nil
  then show ?thesis by simp
next
  case (Cons c cs)
  with assms show ?thesis
    by (subst (asm) scan_once.simps) (auto split: if_splits)
qed

lemma loads_shape:
  assumes "loads s = Inr v"
  shows "(prefix [0x5B] s \<longrightarrow> (\<exists>vs. v = JArr vs)) \<and> (prefix [0x7B] s \<longrightarrow> (\<exists>d. v = JObj d))"
proof -
  have "skip_ws s = s" if "prefix [0x5B] s \<or> prefix [0x7B] s"
    using that by (cases s) (auto simp: skip_ws_def json_ws_def)
  moreover from assms obtain r where "scan_once (skip_ws s) = Some (v, r)"
    by (auto simp: loads_def split: option.splits if_splits)
  ultimately show ?thesis using scan_once_shape[of s v r] by auto
qed

lemma re_search_SomeD:
  "re_search pat s = Some sub \<Longrightarrow> \<exists>pre t n. s = pre @ t \<and> re_match pat t = Some n \<and> sub = take n t"
proof (induction s)
  case Nil
  then show ?case by auto
next
  case (Cons c cs)
  show ?case
  proof (cases "re_match pat (c # cs)")
    case None
    with Cons obtain pre t n where "cs = pre @ t" "re_match pat t = Some n" "sub = take n t"
      by auto
    then have "c # cs = (c # pre) @ t \<and> re_match pat t = Some n \<and> sub = take n t" by simp
    then show ?thesis by blast
  next
    case (Some n)
    with Cons.prems have "c # cs = [] @ (c # cs) \<and> re_match pat (c # cs) = Some n \<and>
      sub = take n (c # cs)" by simp
    then show ?thesis by blast
  qed
qed

lemma re_search_first:
  assumes "re_search (One p # r) s = Some sub"
  shows "\<exists>c rest. sub = c # rest \<and> p c"
proof -
  from re_search_SomeD[OF assms] obtain t n where
    m: "re_match (One p # r) t = Some n" and sub: "sub = take n t" by blast
  then show ?thesis by (cases t) (auto split: if_splits)
qed

lemma parse_json_format_shape:
  assumes "parse_json_format ft message = Inr s" and "loads s = Inr v"
  shows "(\<exists>vs. v = JArr vs) \<or> (\<exists>d. v = JObj d)"
proof -
  have dumps_shape: "prefix [0x5B] (dumps ft data) \<or> prefix [0x7B] (dumps ft data)"
    if "(\<exists>vs. data = JArr vs) \<or> (\<exists>d. data = JObj d)" for data
    using that by (auto simp: str_def)
  have found: "prefix [0x5B] s \<or> prefix [0x7B] s"
    if "reserialize ft (re_search pat message) = Some (Inr s)"
      and "pat = json_array_pattern \<or> pat = json_object_pattern" for pat
  proof -
    from that(1) obtain sub data where sub: "re_search pat message = Some sub"
      and data: "loads sub = Inr data" and s: "s = dumps ft data"
      by (auto simp: reserialize_def split: option.splits sum.splits if_splits)
    have "prefix [0x5B] sub \<or> prefix [0x7B] sub"
      using sub that(2)
      by (auto simp: json_array_pattern_def json_object_pattern_def lit_def
               dest!: re_search_first)
    with loads_shape[OF data] dumps_shape[of data] s show ?thesis by auto
  qed
  from assms(1) have "prefix [0x5B] s \<or> prefix [0x7B] s"
    using found[of json_array_pattern] found[of json_object_pattern]
    by (auto simp: parse_json_format_def str_def split: option.splits)
  with loads_shape[OF assms(2)] show ?thesis by auto
qed

text \<open>
  C7. Let the generator return a non-empty identifier at each call, and never the same
  twice. Then in the list that \<open>parse_tool_calls\<close> returns, every tool call carries a
  non-empty identifier and no two carry the same one, whatever their contents; and
  when the text extracted from the message is a single object, the list has exactly one
  item.
\<close>

theorem parse_tool_calls_ids:
  assumes "inj ids" and "\<forall>k. ids k \<noteq> []"
    and "parse_tool_calls ft ids n message = (Inr calls, n')"
  shows "distinct (map call_id calls) \<and>
         (\<forall>c \<in> set calls. \<exists>s. call_id c = Some (JStr s) \<and> s \<noteq> []) \<and>
         (\<forall>d. seq (parse_json_format ft message) loads = Inr (JObj d) \<longrightarrow> length calls = 1)"
proof -
  have "\<exists>vs. parse_tool_call_list ids n vs = (Inr calls, n') \<and>
          (\<forall>d. seq (parse_json_format ft message) loads = Inr (JObj d) \<longrightarrow> length vs = 1)"
  proof (cases "seq (parse_json_format ft message) loads")
    case (Inl e)
    with assms(3) show ?thesis by (simp add: parse_tool_calls_def)
  next
    case (Inr v)
    show ?thesis
    proof (cases v)
      case (JObj d)
      with Inr assms(3) have "parse_tool_call_list ids n [JObj d] = (Inr calls, n')"
        by (simp add: parse_tool_calls_def)
      with Inr JObj show ?thesis by (intro exI[of _ "[JObj d]"]) simp
    next
      case (JArr vs)
      with Inr assms(3) have "parse_tool_call_list ids n vs = (Inr calls, n')"
        by (simp add: parse_tool_calls_def)
      with Inr JArr show ?thesis by (intro exI[of _ vs]) simp
    next
      case (JStr s)
      with Inr assms(3) have "parse_tool_call_list ids n [] = (Inr calls, n')"
        by (simp add: parse_tool_calls_def split: if_splits)
      with Inr JStr show ?thesis by (intro exI[of _ "[]"]) simp
    qed (use Inr assms(3) in \<open>simp_all add: parse_tool_calls_def\<close>)
  qed
  then obtain vs where
    l: "parse_tool_call_list ids n vs = (Inr calls, n')"
    and one: "\<forall>d. seq (parse_json_format ft message) loads = Inr (JObj d) \<longrightarrow> length vs = 1"
    by blast
  from parse_tool_call_list_ids[OF l] have
    ids: "map call_id calls = map (\<lambda>i. Some (JStr (ids i))) [n..<n + length vs]"
    and len: "length calls = length vs" by auto
  have "inj_on (\<lambda>i. Some (JStr (ids i))) (set [n..<n + length vs])"
    using assms(1) by (auto simp: inj_on_def dest: injD)
  then have "distinct (map call_id calls)"
    unfolding ids by (simp add: distinct_map)
  moreover have "\<exists>s. call_id c = Some (JStr s) \<and> s \<noteq> []" if "c \<in> set calls" for c
  proof -
    from that have "call_id c \<in> set (map call_id calls)" by simp
    then obtain i where "call_id c = Some (JStr (ids i))" unfolding ids by auto
    with assms(2) show ?thesis by simp
  qed
  ultimately show ?thesis using one len by simp
qed

lemma example_ids_inj: "inj example_ids"
proof (rule injI)
  fix a b
  assume "example_ids a = example_ids b"
  then have "length (example_ids a) = length (example_ids b)" by simp
  then show "a = b" by (simp add: example_ids_def)
qed

lemma example_parse_tool_calls:
  "parse_tool_calls example_float_text example_ids 0
     (str ''[{\"name\":\"a__b\"},{\"name\":\"a__b\"}]'') =
   (Inr [JObj [(str ''name'', JStr (str ''a/b'')), (str ''id'', JStr (str ''i''))],
         JObj [(str ''name'', JStr (str ''a/b'')), (str ''id'', JStr (str ''ii''))]], 2)"
proof -
  have a: "re_search json_array_pattern (str ''[{\"name\":\"a__b\"},{\"name\":\"a__b\"}]'') =
           Some (str ''[{\"name\":\"a__b\"},{\"name\":\"a__b\"}]'')"
    by (simp add: str_def re_eval)
  have l: "loads (str ''[{\"name\":\"a__b\"},{\"name\":\"a__b\"}]'') =
           Inr (JArr [JObj [(str ''name'', JStr (str ''a__b''))],
                      JObj [(str ''name'', JStr (str ''a__b''))]])"
    by (simp add: str_def json_eval scanstring.simps)
  have d: "dumps example_float_text
             (JArr [JObj [(str ''name'', JStr (str ''a__b''))],
                    JObj [(str ''name'', JStr (str ''a__b''))]]) =
           str ''[{\"name\": \"a__b\"}, {\"name\": \"a__b\"}]''"
    by (simp add: str_def dumps_str_def escape_char_def)
  have l2: "loads (str ''[{\"name\": \"a__b\"}, {\"name\": \"a__b\"}]'') =
           Inr (JArr [JObj [(str ''name'', JStr (str ''a__b''))],
                      JObj [(str ''name'', JStr (str ''a__b''))]])"
    by (simp add: str_def json_eval scanstring.simps)
  have p: "parse_json_format example_float_text
             (str ''[{\"name\":\"a__b\"},{\"name\":\"a__b\"}]'') =
           Inr (str ''[{\"name\": \"a__b\"}, {\"name\": \"a__b\"}]'')"
    by (simp add: parse_json_format_def reserialize_def a l d del: dumps.simps)
  have r: "decode_tool_name (str ''a__b'') = str ''a/b''"
    by (simp add: decode_tool_name_def str_def py_replace.simps[of "[95, 95]"])
  show ?thesis
    by (simp add: parse_tool_calls_def p l2 seq_def parse_tool_call_def dict_get_def r
        example_ids_def)
      (simp add: str_def)
qed

theorem parse_tool_calls_ids_witness:
  "inj example_ids \<and> (\<forall>k. example_ids k \<noteq> []) \<and>
   parse_tool_calls example_float_text example_ids 0
     (str ''[{\"name\":\"a__b\"},{\"name\":\"a__b\"}]'') =
   (Inr [JObj [(str ''name'', JStr (str ''a/b'')), (str ''id'', JStr (str ''i''))],
         JObj [(str ''name'', JStr (str ''a/b'')), (str ''id'', JStr (str ''ii''))]], 2) \<and>
   distinct (map call_id
     [JObj [(str ''name'', JStr (str ''a/b'')), (str ''id'', JStr (str ''i''))],
      JObj [(str ''name'', JStr (str ''a/b'')), (str ''id'', JStr (str ''ii''))]])"
proof -
  have ne: "\<forall>k. example_ids k \<noteq> []" by (simp add: example_ids_def)
  from parse_tool_calls_ids[OF example_ids_inj ne example_parse_tool_calls]
  show ?thesis using example_ids_inj ne example_parse_tool_calls by blast
qed

text \<open>
  C10. Let tools be supplied and the backend return a text from which
  \<open>parse_tool_calls\<close> reads an object without the key \<open>name\<close>, or an array whose
  first item is such an object. Then \<open>parse_tool_calls\<close> raises \<open>KeyError\<close> for
  \<open>name\<close>, and \<open>address_syscall\<close> returns the response with status code 500 and the
  message \<open>System Error: 'name'\<close>.
\<close>

theorem missing_name_is_system_error:
  assumes "prepare env self llm_syscall = Inr (msgs, Some (t # ts), model)"
    and "call_model env model msgs temperature = Inr res"
    and "seq (parse_json_format (float_text env) res) loads = Inr v"
    and "v = JObj d \<or> (\<exists>rest. v = JArr (JObj d # rest))"
    and "str ''name'' \<notin> fst ` set d"
  shows "fst (parse_tool_calls (float_text env) (generator_tool_call_id env) n res) =
           Inl (KeyError (str ''name'')) \<and>
         fst (address_syscall env self llm_syscall temperature n) =
           Inr \<lparr>response_message = Some (str ''System Error: '' @ [0x27] @ str ''name'' @ [0x27]),
                 tool_calls = None, error = Some ([0x27] @ str ''name'' @ [0x27]),
                 finished = True, status_code = Some 500\<rparr>"
proof -
  have ne: "str ''name'' \<noteq> str ''id''" by (simp add: str_def)
  from assms(5) have "map_of d (str ''name'') = None"
    by (simp add: map_of_eq_None_iff)
  then have "parse_tool_call new_id (JObj d) = Inl (KeyError (str ''name''))" for new_id
    by (simp add: parse_tool_call_def seq_def dict_get_def update_conv' ne)
  with assms(3,4) have
    p: "fst (parse_tool_calls (float_text env) (generator_tool_call_id env) n res) =
        Inl (KeyError (str ''name''))"
    by (auto simp: parse_tool_calls_def)
  then have "fst (post_process env (Some (t # ts)) rt res n) = Inl (KeyError (str ''name''))" for rt
    by (cases "parse_tool_calls (float_text env) (generator_tool_call_id env) n res")
       (simp add: post_process_def)
  with assms(1,2) have
    "fst (address_syscall_body env self llm_syscall temperature n) = Inl (KeyError (str ''name''))"
    by (simp add: address_syscall_body_def)
  then have "fst (address_syscall env self llm_syscall temperature n) =
             Inr (system_error_response (KeyError (str ''name'')))"
    by (cases "address_syscall_body env self llm_syscall temperature n")
       (simp add: address_syscall_def)
  with p show ?thesis by (simp add: system_error_response_def KeyError_def)
qed

lemma example_prepare_tools:
  "\<exists>msgs t ts. prepare (example_env reply) example_adapter
                  (example_syscall (Some example_tools) rt) =
                Inr (msgs, Some (t # ts), RemoteModel (str ''openai/gpt-4o-mini''))"
  by (simp add: prepare_def example_env_def example_adapter_def example_syscall_def
      example_tools_def restore_context_def seq_def list_index_def pre_process_tool_def
      dict_get_def tool_calling_input_format_def translate_message_def str_eval)

theorem missing_name_is_system_error_witness:
  "fst (address_syscall (example_env (Inr (str ''[{\"x\": 1}]''))) example_adapter
          (example_syscall (Some example_tools) (str ''text'')) () 0) =
   Inr \<lparr>response_message = Some (str ''System Error: '' @ [0x27] @ str ''name'' @ [0x27]),
         tool_calls = None, error = Some ([0x27] @ str ''name'' @ [0x27]),
         finished = True, status_code = Some 500\<rparr>"
proof -
  obtain msgs t ts where
    p: "prepare (example_env (Inr (str ''[{\"x\": 1}]''))) example_adapter
          (example_syscall (Some example_tools) (str ''text'')) =
        Inr (msgs, Some (t # ts), RemoteModel (str ''openai/gpt-4o-mini''))"
    using example_prepare_tools by blast
  have a: "re_search json_array_pattern (str ''[{\"x\": 1}]'') = Some (str ''[{\"x\": 1}]'')"
    by (simp add: str_def re_eval)
  have l: "loads (str ''[{\"x\": 1}]'') = Inr (JArr [JObj [(str ''x'', JInt 1)]])"
    by (simp add: str_def json_eval scanstring.simps)
  have d: "dumps example_float_text (JArr [JObj [(str ''x'', JInt 1)]]) = str ''[{\"x\": 1}]''"
    by (simp add: str_def dumps_str_def escape_char_def show_int_def show_nat.simps)
  have s: "seq (parse_json_format (float_text (example_env (Inr (str ''[{\"x\": 1}]''))))
             (str ''[{\"x\": 1}]'')) loads = Inr (JArr [JObj [(str ''x'', JInt 1)]])"
    by (simp add: parse_json_format_def reserialize_def a l d seq_def example_env_def
        del: dumps.simps)
  have n: "str ''name'' \<notin> fst ` set [(str ''x'', JInt 1)]"
    by (simp add: str_def)
  show ?thesis
    using missing_name_is_system_error[OF p example_call_model s _ n, where n = 0] by simp
qed

section \<open>Properties of \<open>__init__\<close>\<close>

text \<open>
  C8, on the code. A remote configuration whose name already carries the prefix of its
  provider adds nothing to the list of backends: the name is not prefixed twice, and it
  is not kept either. A name without the prefix is added with it, after \<open>google\<close> has
  been rewritten to \<open>gemini\<close>.
\<close>

theorem init_drops_qualified_name:
  "resolve_configs Map.empty
     [[(str ''name'', JStr (str ''gemini/gemini-1.5-flash'')),
       (str ''backend'', JStr (str ''gemini''))]] =
   Inr ([[(str ''name'', JStr (str ''gemini/gemini-1.5-flash'')),
          (str ''backend'', JStr (str ''gemini''))]], []) \<and>
   resolve_configs Map.empty
     [[(str ''name'', JStr (str ''gemini-1.5-flash'')),
       (str ''backend'', JStr (str ''google''))]] =
   Inr ([[(str ''name'', JStr (str ''gemini-1.5-flash'')),
          (str ''backend'', JStr (str ''gemini''))]],
        [RemoteModel (str ''gemini/gemini-1.5-flash'')])"
  by (simp add: resolve_config_def dict_get_default_def seq_def str_def)

end
